theory Spec2Isabelle
  imports Main
begin

section \<open>The session and participant registry of blackbird's SFU\<close>

text \<open>
  The repository holds two implementations of the \<open>SessionHandler\<close> interface:
  \<open>MockSessionHandler\<close> (mocksessionhandler.go, with the helpers of sessionutils.go)
  and \<open>WebRtcSessionHandler\<close> (sessionutil.go, with the \<open>check\<close>
  methods of the parameter records and the helpers of preconditions.go). Both are embedded
  here, operation by operation.

  Conventions of the embedding:
  \<^item> a Go \<open>string\<close> is a list of bytes (\<open>string\<close>), so \<open>len(v)\<close> is \<open>length v\<close>;
  \<^item> a pointer that may be \<open>nil\<close> is an \<open>option\<close>; a result record holds the value the
    pointer refers to at the moment the operation returns;
  \<^item> a Go map is a partial function; a \<open>nil\<close> map reads, ranges and deletes like the
    empty map, and both handlers only write to maps they have made;
  \<^item> an \<open>[]string\<close> of errors is a list, \<open>nil\<close> being \<open>[]\<close>;
  \<^item> every operation runs as one step (the handlers' mutex is not modelled), takes the
    store and returns the new store;
  \<^item> the second return value of an operation (\<open>error\<close>) is a \<open>string option\<close>;
  \<^item> a run-time panic is a \<open>fault\<close>, the left summand of an operation's outcome;
  \<^item> what \<open>generateSessionId()\<close> and \<open>time.Now().Format(timeFormat)\<close> yield during a
    call is passed to the operation as two extra arguments.
\<close>

subsection \<open>Data model\<close>

record Session =
  s_Name :: string
  s_Id :: string
  s_CreationDateTime :: string

record Participant =
  p_Name :: string
  p_Id :: string
  p_SessionId :: string
  p_CreationDateTime :: string

text \<open>\<open>RegisteredSession\<close> and \<open>webRtcSession\<close>: a \<open>Session\<close> with its participants.\<close>

record RegisteredSession =
  rs_Session :: Session
  rs_participants :: "string \<rightharpoonup> Participant"

type_synonym webRtcSession = RegisteredSession

text \<open>The \<open>sessions\<close> map of a handler.\<close>

type_synonym store = "string \<rightharpoonup> RegisteredSession"

record CreateSessionParams =
  csp_Name :: string

record GetSessionParams =
  gsp_Id :: string

record DeleteSessionParams =
  dsp_Id :: string

record AddParticipantParams =
  app_SessionId :: string
  app_Name :: string

record GetParticipantParams =
  gpp_SessionId :: string
  gpp_ParticipantId :: string

record UpdateParticipantParams =
  upp_SessionId :: string
  upp_ParticipantId :: string
  upp_Name :: string

record DeleteParticipantParams =
  dpp_SessionId :: string
  dpp_ParticipantId :: string

record GetParticipantsParams =
  gpsp_SessionId :: string

text \<open>
  \<open>CreateSessionResult\<close>, \<open>GetSessionResult\<close> and \<open>DeleteSessionResult\<close> have the
  same two fields; so have the four results that carry one participant.
\<close>

record SessionResult =
  res_Session :: "Session option"
  res_Errors :: "string list"

record ParticipantResult =
  pres_Participant :: "Participant option"
  pres_Errors :: "string list"

text \<open>
  \<open>GetParticipantsResult.Participants\<close> is filled by ranging over a map, in an order
  Go leaves unspecified: the model keeps the participants as a set.
\<close>

record ParticipantsResult =
  psres_Participants :: "Participant set"
  psres_Errors :: "string list"

datatype fault = NilPointerDereference

type_synonym 'r outcome = "fault + ('r \<times> string option \<times> store)"

subsection \<open>Preconditions (preconditions.go, sessionutils.go, sessionutil.go)\<close>

definition IdLen :: nat where
  "IdLen = 10"

text \<open>
  \<open>len(strings.TrimSpace(v)) == 0\<close> holds when \<open>v\<close> is made of white space only.
  \<open>TrimSpace\<close> decodes UTF-8 and trims what \<open>unicode.IsSpace\<close> accepts: the six ASCII
  characters tab, line feed, vertical tab, form feed, carriage return and space, and
  U+0085, U+00A0, U+1680, U+2000 to U+200A, U+2028, U+2029, U+202F, U+205F and U+3000,
  matched below by their UTF-8 encodings.
\<close>

definition asciiSpace :: "char \<Rightarrow> bool" where
  "asciiSpace c \<longleftrightarrow> c \<in> set [CHR 0x09, CHR 0x0A, CHR 0x0B, CHR 0x0C, CHR 0x0D, CHR 0x20]"

fun allSpace :: "string \<Rightarrow> bool" where
  "allSpace [] = True"
| "allSpace (c # cs) =
     (if asciiSpace c then allSpace cs
      else if c = CHR 0xC2 then
        (case cs of
           d # ds \<Rightarrow> (d = CHR 0x85 \<or> d = CHR 0xA0) \<and> allSpace ds
         | [] \<Rightarrow> False)
      else if c = CHR 0xE1 then
        (case cs of
           d # e # es \<Rightarrow> d = CHR 0x9A \<and> e = CHR 0x80 \<and> allSpace es
         | _ \<Rightarrow> False)
      else if c = CHR 0xE2 then
        (case cs of
           d # e # es \<Rightarrow>
             ((d = CHR 0x80 \<and>
                 e \<in> set [CHR 0x80, CHR 0x81, CHR 0x82, CHR 0x83, CHR 0x84, CHR 0x85,
                           CHR 0x86, CHR 0x87, CHR 0x88, CHR 0x89, CHR 0x8A,
                           CHR 0xA8, CHR 0xA9, CHR 0xAF])
              \<or> (d = CHR 0x81 \<and> e = CHR 0x9F)) \<and> allSpace es
         | _ \<Rightarrow> False)
      else if c = CHR 0xE3 then
        (case cs of
           d # e # es \<Rightarrow> d = CHR 0x80 \<and> e = CHR 0x80 \<and> allSpace es
         | _ \<Rightarrow> False)
      else False)"

text \<open>preconditions.go, \<open>isNotBlank\<close>: the error text, or \<open>None\<close> for \<open>nil\<close>.\<close>

definition isNotBlank :: "string \<Rightarrow> string \<Rightarrow> string option" where
  "isNotBlank n v = (if allSpace v then Some (n @ '' must not be blank'') else None)"

text \<open>
  The character class \<open>[A-Za-z0-9=+\-]\<close>. \<open>regexp.MatchString\<close> searches: the pattern
  has no anchors, so it matches a string as soon as one of its characters is in the class.
\<close>

definition idChar :: "char \<Rightarrow> bool" where
  "idChar c \<longleftrightarrow> c \<in> set (''ABCDEFGHIJKLMNOPQRSTUVWXYZ'' @ ''abcdefghijklmnopqrstuvwxyz''
                          @ ''0123456789'' @ ''=+-'')"

definition matchIdPattern :: "string \<Rightarrow> bool" where
  "matchIdPattern v = list_ex idChar v"

text \<open>preconditions.go, \<open>isId\<close>. The message is built from the value \<open>v\<close>, not the field name.\<close>

definition isId :: "string \<Rightarrow> string \<Rightarrow> string option" where
  "isId n v =
     (let valid = (if length v = IdLen then (if matchIdPattern v then True else False) else False)
      in if \<not> valid then Some (v @ '' must be a valid id'') else None)"

text \<open>
  sessionutils.go, \<open>checkSessionId\<close>, hands the id to \<open>uuid.Parse\<close> of the library
  github.com/google/uuid and returns its error. The library is not part of the repository:
  its parser is a parameter, a function that yields the error text for an id it rejects.
\<close>

type_synonym uuidParse = "string \<Rightarrow> string option"

definition checkSessionId :: "uuidParse \<Rightarrow> string \<Rightarrow> string option" where
  "checkSessionId parse v = (case parse v of Some err \<Rightarrow> Some err | None \<Rightarrow> None)"

definition checkNotBlank :: "string \<Rightarrow> string option" where
  "checkNotBlank name = (if allSpace name then Some ''name must not be blank'' else None)"

text \<open>\<open>fmt.Errorf("session %s does not exist", id)\<close>.\<close>

definition sessionDoesNotExist :: "string \<Rightarrow> string" where
  "sessionDoesNotExist sessionId = ''session '' @ sessionId @ '' does not exist''"

text \<open>
  sessionutil.go, \<open>generateSessionId\<close>, returns the first \<open>IdLen\<close> characters of a
  SHA-256 digest printed with \<open>%x\<close>: \<open>IdLen\<close> lower-case hexadecimal digits.
\<close>

definition hexDigit :: "char \<Rightarrow> bool" where
  "hexDigit c \<longleftrightarrow> c \<in> set ''0123456789abcdef''"

definition generatedId :: "string \<Rightarrow> bool" where
  "generatedId v \<longleftrightarrow> length v = IdLen \<and> list_all hexDigit v"

subsection \<open>The \<open>check\<close> methods of the parameter records\<close>

text \<open>\<open>if err != nil { errors = append(errors, err.Error()) }\<close>\<close>

definition appendError :: "string list \<Rightarrow> string option \<Rightarrow> string list" where
  "appendError errors err = (case err of Some e \<Rightarrow> errors @ [e] | None \<Rightarrow> errors)"

definition CreateSessionParams_check :: "CreateSessionParams \<Rightarrow> string list" where
  "CreateSessionParams_check p = appendError [] (isNotBlank ''name'' (csp_Name p))"

definition GetSessionParams_check :: "GetSessionParams \<Rightarrow> string list" where
  "GetSessionParams_check p = appendError [] (isId ''id'' (gsp_Id p))"

definition DeleteSessionParams_check :: "DeleteSessionParams \<Rightarrow> string list" where
  "DeleteSessionParams_check p = appendError [] (isId ''id'' (dsp_Id p))"

definition AddParticipantParams_check :: "AddParticipantParams \<Rightarrow> string list" where
  "AddParticipantParams_check p =
     appendError (appendError [] (isId ''sessionId'' (app_SessionId p)))
       (isNotBlank ''name'' (app_Name p))"

definition GetParticipantParams_check :: "GetParticipantParams \<Rightarrow> string list" where
  "GetParticipantParams_check p =
     appendError (appendError [] (isId ''sessionId'' (gpp_SessionId p)))
       (isId ''participantId'' (gpp_ParticipantId p))"

definition UpdateParticipantParams_check :: "UpdateParticipantParams \<Rightarrow> string list" where
  "UpdateParticipantParams_check p =
     appendError
       (appendError (appendError [] (isId ''sessionId'' (upp_SessionId p)))
          (isId ''participantId'' (upp_ParticipantId p)))
       (isNotBlank ''name'' (upp_Name p))"

definition DeleteParticipantParams_check :: "DeleteParticipantParams \<Rightarrow> string list" where
  "DeleteParticipantParams_check p =
     appendError (appendError [] (isId ''sessionId'' (dpp_SessionId p)))
       (isId ''participantId'' (dpp_ParticipantId p))"

definition GetParticipantsParams_check :: "GetParticipantsParams \<Rightarrow> string list" where
  "GetParticipantsParams_check p = appendError [] (isId ''sessionId'' (gpsp_SessionId p))"

subsection \<open>\<open>MockSessionHandler\<close> (mocksessionhandler.go)\<close>

text \<open>
  Each operation takes the \<open>sessions\<close> map and returns the result record, the \<open>error\<close>
  and the map afterwards. \<open>&registeredSession.Session\<close> evaluates the selector through the
  pointer, which panics when the pointer is \<open>nil\<close>.
\<close>

definition MockSessionHandler_CreateSession ::
  "store \<Rightarrow> string \<Rightarrow> string \<Rightarrow> CreateSessionParams \<Rightarrow> SessionResult outcome" where
  "MockSessionHandler_CreateSession h newId now p =
     (case checkNotBlank (csp_Name p) of
        Some err \<Rightarrow> Inr (\<lparr>res_Session = None, res_Errors = [err]\<rparr>, None, h)
      | None \<Rightarrow>
          (let session = \<lparr>s_Name = csp_Name p, s_Id = newId, s_CreationDateTime = now\<rparr>;
               registeredSession = \<lparr>rs_Session = session, rs_participants = Map.empty\<rparr>
           in Inr (\<lparr>res_Session = Some (rs_Session registeredSession), res_Errors = []\<rparr>, None,
                   h(s_Id session \<mapsto> registeredSession))))"

definition MockSessionHandler_GetSession ::
  "uuidParse \<Rightarrow> store \<Rightarrow> GetSessionParams \<Rightarrow> SessionResult outcome" where
  "MockSessionHandler_GetSession parse h p =
     (case checkSessionId parse (gsp_Id p) of
        Some err \<Rightarrow> Inr (\<lparr>res_Session = None, res_Errors = [err]\<rparr>, None, h)
      | None \<Rightarrow>
          (case h (gsp_Id p) of
             None \<Rightarrow> Inl NilPointerDereference
           | Some registeredSession \<Rightarrow>
               Inr (\<lparr>res_Session = Some (rs_Session registeredSession), res_Errors = []\<rparr>,
                    None, h)))"

definition MockSessionHandler_DeleteSession ::
  "uuidParse \<Rightarrow> store \<Rightarrow> DeleteSessionParams \<Rightarrow> SessionResult outcome" where
  "MockSessionHandler_DeleteSession parse h p =
     (case checkSessionId parse (dsp_Id p) of
        Some err \<Rightarrow> Inr (\<lparr>res_Session = None, res_Errors = [err]\<rparr>, None, h)
      | None \<Rightarrow>
          (let h' = h(dsp_Id p := None)
           in case h (dsp_Id p) of
                None \<Rightarrow> Inl NilPointerDereference
              | Some registeredSession \<Rightarrow>
                  Inr (\<lparr>res_Session = Some (rs_Session registeredSession), res_Errors = []\<rparr>,
                       None, h')))"

definition MockSessionHandler_AddParticipant ::
  "uuidParse \<Rightarrow> store \<Rightarrow> string \<Rightarrow> string \<Rightarrow> AddParticipantParams \<Rightarrow> ParticipantResult outcome"
  where
  "MockSessionHandler_AddParticipant parse h newId now p =
     (case checkSessionId parse (app_SessionId p) of
        Some err \<Rightarrow> Inr (\<lparr>pres_Participant = None, pres_Errors = [err]\<rparr>, None, h)
      | None \<Rightarrow>
     (case checkNotBlank (app_Name p) of
        Some err \<Rightarrow> Inr (\<lparr>pres_Participant = None, pres_Errors = [err]\<rparr>, None, h)
      | None \<Rightarrow>
     (case h (app_SessionId p) of
        None \<Rightarrow>
          Inr (\<lparr>pres_Participant = None,
                pres_Errors = [sessionDoesNotExist (app_SessionId p)]\<rparr>, None, h)
      | Some registeredSession \<Rightarrow>
          (let participant =
                 \<lparr>p_Name = app_Name p, p_Id = newId,
                  p_SessionId = s_Id (rs_Session registeredSession),
                  p_CreationDateTime = now\<rparr>;
               registeredSession' =
                 registeredSession\<lparr>rs_participants :=
                   (rs_participants registeredSession)(p_Id participant \<mapsto> participant)\<rparr>
           in Inr (\<lparr>pres_Participant = Some participant, pres_Errors = []\<rparr>, None,
                   h(app_SessionId p \<mapsto> registeredSession'))))))"

definition MockSessionHandler_GetParticipant ::
  "store \<Rightarrow> GetParticipantParams \<Rightarrow> ParticipantResult outcome" where
  "MockSessionHandler_GetParticipant h p =
     (case h (gpp_SessionId p) of
        None \<Rightarrow>
          Inr (\<lparr>pres_Participant = None,
                pres_Errors = [sessionDoesNotExist (gpp_SessionId p)]\<rparr>, None, h)
      | Some registeredSession \<Rightarrow>
          (let participant = rs_participants registeredSession (gpp_ParticipantId p)
           in Inr (\<lparr>pres_Participant = participant, pres_Errors = []\<rparr>, None, h)))"

definition MockSessionHandler_UpdateParticipant ::
  "store \<Rightarrow> UpdateParticipantParams \<Rightarrow> ParticipantResult outcome" where
  "MockSessionHandler_UpdateParticipant h p =
     (case checkNotBlank (upp_Name p) of
        Some err \<Rightarrow> Inr (\<lparr>pres_Participant = None, pres_Errors = [err]\<rparr>, None, h)
      | None \<Rightarrow>
     (case h (upp_SessionId p) of
        None \<Rightarrow>
          Inr (\<lparr>pres_Participant = None,
                pres_Errors = [sessionDoesNotExist (upp_SessionId p)]\<rparr>, None, h)
      | Some registeredSession \<Rightarrow>
     (case rs_participants registeredSession (upp_ParticipantId p) of
        None \<Rightarrow> Inr (\<lparr>pres_Participant = None, pres_Errors = []\<rparr>, None, h)
      | Some participant \<Rightarrow>
          (let participant' = participant\<lparr>p_Name := upp_Name p\<rparr>;
               registeredSession' =
                 registeredSession\<lparr>rs_participants :=
                   (rs_participants registeredSession)(upp_ParticipantId p \<mapsto> participant')\<rparr>
           in Inr (\<lparr>pres_Participant = Some participant', pres_Errors = []\<rparr>, None,
                   h(upp_SessionId p \<mapsto> registeredSession'))))))"

definition MockSessionHandler_DeleteParticipant ::
  "store \<Rightarrow> DeleteParticipantParams \<Rightarrow> ParticipantResult outcome" where
  "MockSessionHandler_DeleteParticipant h p =
     (case h (dpp_SessionId p) of
        None \<Rightarrow>
          Inr (\<lparr>pres_Participant = None,
                pres_Errors = [sessionDoesNotExist (dpp_SessionId p)]\<rparr>, None, h)
      | Some registeredSession \<Rightarrow>
     (case rs_participants registeredSession (dpp_ParticipantId p) of
        None \<Rightarrow> Inr (\<lparr>pres_Participant = None, pres_Errors = []\<rparr>, None, h)
      | Some participant \<Rightarrow>
          (let registeredSession' =
                 registeredSession\<lparr>rs_participants :=
                   (rs_participants registeredSession)(p_Id participant := None)\<rparr>
           in Inr (\<lparr>pres_Participant = Some participant, pres_Errors = []\<rparr>, None,
                   h(dpp_SessionId p \<mapsto> registeredSession')))))"

definition MockSessionHandler_GetParticipants ::
  "store \<Rightarrow> GetParticipantsParams \<Rightarrow> ParticipantsResult outcome" where
  "MockSessionHandler_GetParticipants h p =
     (case h (gpsp_SessionId p) of
        None \<Rightarrow>
          Inr (\<lparr>psres_Participants = {},
                psres_Errors = [sessionDoesNotExist (gpsp_SessionId p)]\<rparr>, None, h)
      | Some registeredSession \<Rightarrow>
          Inr (\<lparr>psres_Participants = ran (rs_participants registeredSession),
                psres_Errors = []\<rparr>, None, h))"

subsection \<open>\<open>WebRtcSessionHandler\<close> (sessionutil.go)\<close>

text \<open>
  The handler is built by \<open>NewWebRtcSessionHandler\<close>, which makes the \<open>sessions\<close> map;
  \<open>newSession\<close> makes the \<open>participants\<close> map of every session.
\<close>

definition NewWebRtcSessionHandler :: store where
  "NewWebRtcSessionHandler = Map.empty"

definition newSession :: "string \<Rightarrow> string \<Rightarrow> CreateSessionParams \<Rightarrow> webRtcSession" where
  "newSession newId now params =
     \<lparr>rs_Session = \<lparr>s_Name = csp_Name params, s_Id = newId, s_CreationDateTime = now\<rparr>,
      rs_participants = Map.empty\<rparr>"

definition newParticipant :: "string \<Rightarrow> string \<Rightarrow> AddParticipantParams \<Rightarrow> Participant" where
  "newParticipant newId now p =
     \<lparr>p_Name = app_Name p, p_Id = newId, p_SessionId = app_SessionId p,
      p_CreationDateTime = now\<rparr>"

text \<open>
  \<open>doActionOnSession\<close> looks the session up and runs the action on it. An action is a
  closure that writes to the store and to one variable of its caller (\<open>session\<close>,
  \<open>participant\<close> or \<open>participants\<close>): here it maps the pair of both to the pair afterwards.
  The session found is the object stored under \<open>sessionId\<close>.
\<close>

definition doActionOnSession ::
  "store \<Rightarrow> string \<Rightarrow> (webRtcSession \<Rightarrow> store \<times> 'v \<Rightarrow> store \<times> 'v) \<Rightarrow> 'v \<Rightarrow> bool \<times> store \<times> 'v"
  where
  "doActionOnSession h sessionId action v =
     (case h sessionId of
        None \<Rightarrow> (False, h, v)
      | Some s \<Rightarrow> (case action s (h, v) of (h', v') \<Rightarrow> (True, h', v')))"

definition WebRtcSessionHandler_CreateSession ::
  "store \<Rightarrow> string \<Rightarrow> string \<Rightarrow> CreateSessionParams \<Rightarrow> SessionResult outcome" where
  "WebRtcSessionHandler_CreateSession h newId now params =
     (let errors = CreateSessionParams_check params
      in if errors \<noteq> [] then Inr (\<lparr>res_Session = None, res_Errors = errors\<rparr>, None, h)
         else
           (let s = newSession newId now params
            in Inr (\<lparr>res_Session = Some (rs_Session s), res_Errors = []\<rparr>, None,
                    h(s_Id (rs_Session s) \<mapsto> s))))"

definition WebRtcSessionHandler_GetSession ::
  "store \<Rightarrow> GetSessionParams \<Rightarrow> SessionResult outcome" where
  "WebRtcSessionHandler_GetSession h params =
     (let errors = GetSessionParams_check params
      in if errors \<noteq> [] then Inr (\<lparr>res_Session = None, res_Errors = errors\<rparr>, None, h)
         else
           (case doActionOnSession h (gsp_Id params)
                   (\<lambda>s (h, session). (h, Some (rs_Session s))) None of
              (ok, h', session) \<Rightarrow>
                Inr (\<lparr>res_Session = session, res_Errors = []\<rparr>, None, h')))"

definition WebRtcSessionHandler_DeleteSession ::
  "store \<Rightarrow> DeleteSessionParams \<Rightarrow> SessionResult outcome" where
  "WebRtcSessionHandler_DeleteSession h params =
     (let errors = DeleteSessionParams_check params
      in if errors \<noteq> [] then Inr (\<lparr>res_Session = None, res_Errors = errors\<rparr>, None, h)
         else
           (case doActionOnSession h (dsp_Id params)
                   (\<lambda>s (h, session). (h(dsp_Id params := None), Some (rs_Session s))) None of
              (ok, h', session) \<Rightarrow>
                Inr (\<lparr>res_Session = session, res_Errors = []\<rparr>, None, h')))"

definition WebRtcSessionHandler_AddParticipant ::
  "store \<Rightarrow> string \<Rightarrow> string \<Rightarrow> AddParticipantParams \<Rightarrow> ParticipantResult outcome" where
  "WebRtcSessionHandler_AddParticipant h newId now params =
     (let errors = AddParticipantParams_check params
      in if errors \<noteq> [] then Inr (\<lparr>pres_Participant = None, pres_Errors = errors\<rparr>, None, h)
         else
           (let participant = newParticipant newId now params;
                action = (\<lambda>s (h, u).
                  (h(app_SessionId params \<mapsto>
                       s\<lparr>rs_participants := (rs_participants s)(p_Id participant \<mapsto> participant)\<rparr>),
                   u))
            in case doActionOnSession h (app_SessionId params) action () of
                 (ok, h', u) \<Rightarrow>
                   if \<not> ok then
                     Inr (\<lparr>pres_Participant = None,
                           pres_Errors = [sessionDoesNotExist (app_SessionId params)]\<rparr>, None, h')
                   else Inr (\<lparr>pres_Participant = Some participant, pres_Errors = []\<rparr>, None, h')))"

definition WebRtcSessionHandler_GetParticipant ::
  "store \<Rightarrow> GetParticipantParams \<Rightarrow> ParticipantResult outcome" where
  "WebRtcSessionHandler_GetParticipant h params =
     (let errors = GetParticipantParams_check params
      in if errors \<noteq> [] then Inr (\<lparr>pres_Participant = None, pres_Errors = errors\<rparr>, None, h)
         else
           (let action = (\<lambda>s (h, participant).
                  (case rs_participants s (gpp_ParticipantId params) of
                     Some p \<Rightarrow> (h, Some p)
                   | None \<Rightarrow> (h, participant)))
            in case doActionOnSession h (gpp_SessionId params) action None of
                 (ok, h', participant) \<Rightarrow>
                   if \<not> ok then
                     Inr (\<lparr>pres_Participant = None,
                           pres_Errors = [sessionDoesNotExist (gpp_SessionId params)]\<rparr>, None, h')
                   else Inr (\<lparr>pres_Participant = participant, pres_Errors = []\<rparr>, None, h')))"

definition WebRtcSessionHandler_UpdateParticipant ::
  "store \<Rightarrow> UpdateParticipantParams \<Rightarrow> ParticipantResult outcome" where
  "WebRtcSessionHandler_UpdateParticipant h params =
     (let errors = UpdateParticipantParams_check params
      in if errors \<noteq> [] then Inr (\<lparr>pres_Participant = None, pres_Errors = errors\<rparr>, None, h)
         else
           (let action = (\<lambda>s (h, participant).
                  (case rs_participants s (upp_ParticipantId params) of
                     None \<Rightarrow> (h, participant)
                   | Some p \<Rightarrow>
                       (let p' = p\<lparr>p_Name := upp_Name params\<rparr>
                        in (h(upp_SessionId params \<mapsto>
                              s\<lparr>rs_participants :=
                                  (rs_participants s)(upp_ParticipantId params \<mapsto> p')\<rparr>),
                            Some p'))))
            in case doActionOnSession h (upp_SessionId params) action None of
                 (ok, h', participant) \<Rightarrow>
                   if \<not> ok then
                     Inr (\<lparr>pres_Participant = None,
                           pres_Errors = [sessionDoesNotExist (upp_SessionId params)]\<rparr>, None, h')
                   else Inr (\<lparr>pres_Participant = participant, pres_Errors = []\<rparr>, None, h')))"

definition WebRtcSessionHandler_DeleteParticipant ::
  "store \<Rightarrow> DeleteParticipantParams \<Rightarrow> ParticipantResult outcome" where
  "WebRtcSessionHandler_DeleteParticipant h params =
     (let errors = DeleteParticipantParams_check params
      in if errors \<noteq> [] then Inr (\<lparr>pres_Participant = None, pres_Errors = errors\<rparr>, None, h)
         else
           (let action = (\<lambda>s (h, participant).
                  (case rs_participants s (dpp_ParticipantId params) of
                     None \<Rightarrow> (h, participant)
                   | Some p \<Rightarrow>
                       (h(dpp_SessionId params \<mapsto>
                            s\<lparr>rs_participants :=
                                (rs_participants s)(dpp_ParticipantId params := None)\<rparr>),
                        Some p)))
            in case doActionOnSession h (dpp_SessionId params) action None of
                 (ok, h', participant) \<Rightarrow>
                   if \<not> ok then
                     Inr (\<lparr>pres_Participant = None,
                           pres_Errors = [sessionDoesNotExist (dpp_SessionId params)]\<rparr>, None, h')
                   else Inr (\<lparr>pres_Participant = participant, pres_Errors = []\<rparr>, None, h')))"

definition WebRtcSessionHandler_GetParticipants ::
  "store \<Rightarrow> GetParticipantsParams \<Rightarrow> ParticipantsResult outcome" where
  "WebRtcSessionHandler_GetParticipants h params =
     (let errors = GetParticipantsParams_check params
      in if errors \<noteq> [] then Inr (\<lparr>psres_Participants = {}, psres_Errors = errors\<rparr>, None, h)
         else
           (let action = (\<lambda>s (h, participants). (h, ran (rs_participants s)))
            in case doActionOnSession h (gpsp_SessionId params) action {} of
                 (ok, h', participants) \<Rightarrow>
                   if \<not> ok then
                     Inr (\<lparr>psres_Participants = {},
                           psres_Errors = [sessionDoesNotExist (gpsp_SessionId params)]\<rparr>,
                          None, h')
                   else Inr (\<lparr>psres_Participants = participants, psres_Errors = []\<rparr>, None, h')))"

subsection \<open>A parser to run \<open>MockSessionHandler\<close> on concrete inputs\<close>

text \<open>
  The theorems on \<open>MockSessionHandler\<close> hold for every parser. To evaluate them at a
  concrete input, \<open>acceptCanonicalLength\<close> stands for \<open>uuid.Parse\<close>: it accepts the
  strings that have the length of a UUID in its canonical form, 36, and nothing else.
  It is one instance of the parameter and not the library's parser, which also looks at
  the hyphens and the digits, accepts three more forms and names the length in its error.
  The examples give it canonical version 4 UUIDs, which the library accepts, and strings
  of 3 and 10 bytes, which the library rejects.
\<close>

definition acceptCanonicalLength :: uuidParse where
  "acceptCanonicalLength v = (if length v = 36 then None else Some ''invalid UUID length'')"

subsection \<open>Calls of the \<open>SessionHandler\<close> interface and reachable stores\<close>

text \<open>
  A request is a call of one of the eight methods of the interface \<open>SessionHandler\<close>,
  and a response the result record it returns. \<open>call\<close> runs a request on a handler;
  the identifier and the time stamp are the ones the call would generate.
\<close>

datatype request =
    CreateSession CreateSessionParams
  | GetSession GetSessionParams
  | DeleteSession DeleteSessionParams
  | AddParticipant AddParticipantParams
  | GetParticipant GetParticipantParams
  | UpdateParticipant UpdateParticipantParams
  | DeleteParticipant DeleteParticipantParams
  | GetParticipants GetParticipantsParams

datatype response =
    SessionResponse SessionResult
  | ParticipantResponse ParticipantResult
  | ParticipantsResponse ParticipantsResult

definition respond :: "('r \<Rightarrow> response) \<Rightarrow> 'r outcome \<Rightarrow> response outcome" where
  "respond wrap out = (case out of Inl f \<Rightarrow> Inl f | Inr (r, e, h) \<Rightarrow> Inr (wrap r, e, h))"

fun MockSessionHandler_call ::
  "uuidParse \<Rightarrow> store \<Rightarrow> string \<Rightarrow> string \<Rightarrow> request \<Rightarrow> response outcome" where
  "MockSessionHandler_call parse h newId now (CreateSession p) =
     respond SessionResponse (MockSessionHandler_CreateSession h newId now p)"
| "MockSessionHandler_call parse h newId now (GetSession p) =
     respond SessionResponse (MockSessionHandler_GetSession parse h p)"
| "MockSessionHandler_call parse h newId now (DeleteSession p) =
     respond SessionResponse (MockSessionHandler_DeleteSession parse h p)"
| "MockSessionHandler_call parse h newId now (AddParticipant p) =
     respond ParticipantResponse (MockSessionHandler_AddParticipant parse h newId now p)"
| "MockSessionHandler_call parse h newId now (GetParticipant p) =
     respond ParticipantResponse (MockSessionHandler_GetParticipant h p)"
| "MockSessionHandler_call parse h newId now (UpdateParticipant p) =
     respond ParticipantResponse (MockSessionHandler_UpdateParticipant h p)"
| "MockSessionHandler_call parse h newId now (DeleteParticipant p) =
     respond ParticipantResponse (MockSessionHandler_DeleteParticipant h p)"
| "MockSessionHandler_call parse h newId now (GetParticipants p) =
     respond ParticipantsResponse (MockSessionHandler_GetParticipants h p)"

fun WebRtcSessionHandler_call ::
  "store \<Rightarrow> string \<Rightarrow> string \<Rightarrow> request \<Rightarrow> response outcome" where
  "WebRtcSessionHandler_call h newId now (CreateSession p) =
     respond SessionResponse (WebRtcSessionHandler_CreateSession h newId now p)"
| "WebRtcSessionHandler_call h newId now (GetSession p) =
     respond SessionResponse (WebRtcSessionHandler_GetSession h p)"
| "WebRtcSessionHandler_call h newId now (DeleteSession p) =
     respond SessionResponse (WebRtcSessionHandler_DeleteSession h p)"
| "WebRtcSessionHandler_call h newId now (AddParticipant p) =
     respond ParticipantResponse (WebRtcSessionHandler_AddParticipant h newId now p)"
| "WebRtcSessionHandler_call h newId now (GetParticipant p) =
     respond ParticipantResponse (WebRtcSessionHandler_GetParticipant h p)"
| "WebRtcSessionHandler_call h newId now (UpdateParticipant p) =
     respond ParticipantResponse (WebRtcSessionHandler_UpdateParticipant h p)"
| "WebRtcSessionHandler_call h newId now (DeleteParticipant p) =
     respond ParticipantResponse (WebRtcSessionHandler_DeleteParticipant h p)"
| "WebRtcSessionHandler_call h newId now (GetParticipants p) =
     respond ParticipantsResponse (WebRtcSessionHandler_GetParticipants h p)"

text \<open>
  The stores a handler can be in: the one it starts with, and those its operations leave
  behind. \<open>generateSessionId\<close> of sessionutils.go returns \<open>uuid.New().String()\<close>, which
  \<open>uuid.Parse\<close> accepts; the one of sessionutil.go returns an id in \<open>generatedId\<close>.
  A panic leaves no store behind.
\<close>

inductive MockSessionHandler_reachable :: "uuidParse \<Rightarrow> store \<Rightarrow> bool" for parse where
  new: "MockSessionHandler_reachable parse Map.empty"
| call: "MockSessionHandler_reachable parse h \<Longrightarrow> parse newId = None \<Longrightarrow>
         MockSessionHandler_call parse h newId now req = Inr (r, e, h') \<Longrightarrow>
         MockSessionHandler_reachable parse h'"

inductive WebRtcSessionHandler_reachable :: "store \<Rightarrow> bool" where
  new: "WebRtcSessionHandler_reachable NewWebRtcSessionHandler"
| call: "WebRtcSessionHandler_reachable h \<Longrightarrow> generatedId newId \<Longrightarrow>
         WebRtcSessionHandler_call h newId now req = Inr (r, e, h') \<Longrightarrow>
         WebRtcSessionHandler_reachable h'"

text \<open>
  In a well-formed store every session and every participant is stored under its own id,
  a participant names the session it is stored in, ids satisfy \<open>okId\<close> and no name is
  blank.
\<close>

definition wellFormed :: "(string \<Rightarrow> bool) \<Rightarrow> store \<Rightarrow> bool" where
  "wellFormed okId h \<longleftrightarrow>
     (\<forall>sid rs. h sid = Some rs \<longrightarrow>
        okId sid \<and> s_Id (rs_Session rs) = sid \<and> \<not> allSpace (s_Name (rs_Session rs)) \<and>
        (\<forall>pid p. rs_participants rs pid = Some p \<longrightarrow>
           okId pid \<and> p_Id p = pid \<and> p_SessionId p = sid \<and> \<not> allSpace (p_Name p)))"

text \<open>
  A store for examples: one session named \<open>standup\<close> with one participant named \<open>alice\<close>.
\<close>

definition sampleStore :: "string \<Rightarrow> string \<Rightarrow> store" where
  "sampleStore sid pid =
     [sid \<mapsto> \<lparr>rs_Session = \<lparr>s_Name = ''standup'', s_Id = sid,
                                s_CreationDateTime = ''2024-05-06T09:00:00 +000000''\<rparr>,
               rs_participants =
                 [pid \<mapsto> \<lparr>p_Name = ''alice'', p_Id = pid, p_SessionId = sid,
                           p_CreationDateTime = ''2024-05-06T09:00:05 +000000''\<rparr>]\<rparr>]"

text \<open>
  The same store with ids as \<open>WebRtcSessionHandler\<close> generates them, and with ids in the
  canonical form of a UUID, as \<open>MockSessionHandler\<close> generates them.
\<close>

abbreviation webRtcStore :: store where
  "webRtcStore \<equiv> sampleStore ''0123456789'' ''89abcdef01''"

abbreviation mockStore :: store where
  "mockStore \<equiv> sampleStore ''123e4567-e89b-42d3-a456-426614174000''
                 ''9b2e1f6c-7a4d-4c3b-8f10-5d6e7f8a9b0c''"

text \<open>The example store before \<open>alice\<close> joins: the session \<open>standup\<close> alone.\<close>

definition standupStore :: "string \<Rightarrow> store" where
  "standupStore sid =
     [sid \<mapsto> \<lparr>rs_Session = \<lparr>s_Name = ''standup'', s_Id = sid,
                                s_CreationDateTime = ''2024-05-06T09:00:00 +000000''\<rparr>,
               rs_participants = Map.empty\<rparr>]"

text \<open>
  A run is a sequence of calls, each with the identifier and the time stamp it would
  generate. It yields the result and the \<open>error\<close> of every call and the store at the
  end, or the panic that ends it.
\<close>

fun MockSessionHandler_run ::
  "uuidParse \<Rightarrow> store \<Rightarrow> (string \<times> string \<times> request) list
     \<Rightarrow> fault + ((response \<times> string option) list \<times> store)" where
  "MockSessionHandler_run parse h [] = Inr ([], h)"
| "MockSessionHandler_run parse h ((newId, now, req) # calls) =
     (case MockSessionHandler_call parse h newId now req of
        Inl f \<Rightarrow> Inl f
      | Inr (r, e, h') \<Rightarrow>
          (case MockSessionHandler_run parse h' calls of
             Inl f \<Rightarrow> Inl f
           | Inr (rs, h'') \<Rightarrow> Inr ((r, e) # rs, h'')))"

fun WebRtcSessionHandler_run ::
  "store \<Rightarrow> (string \<times> string \<times> request) list
     \<Rightarrow> fault + ((response \<times> string option) list \<times> store)" where
  "WebRtcSessionHandler_run h [] = Inr ([], h)"
| "WebRtcSessionHandler_run h ((newId, now, req) # calls) =
     (case WebRtcSessionHandler_call h newId now req of
        Inl f \<Rightarrow> Inl f
      | Inr (r, e, h') \<Rightarrow>
          (case WebRtcSessionHandler_run h' calls of
             Inl f \<Rightarrow> Inl f
           | Inr (rs, h'') \<Rightarrow> Inr ((r, e) # rs, h'')))"

section \<open>Properties\<close>

subsection \<open>Evaluation of the checks\<close>

lemma appendError_simps:
  "appendError errors None = errors"
  "appendError errors (Some e) = errors @ [e]"
  by (simp_all add: appendError_def)

lemma checkSessionId_eq: "checkSessionId parse v = parse v"
  by (simp add: checkSessionId_def split: option.splits)

lemma checkNotBlank_eq_None: "checkNotBlank name = None \<longleftrightarrow> \<not> allSpace name"
  by (simp add: checkNotBlank_def)

lemma isNotBlank_eq_None: "isNotBlank n v = None \<longleftrightarrow> \<not> allSpace v"
  by (simp add: isNotBlank_def)

lemma isNotBlank_name: "isNotBlank ''name'' v = checkNotBlank v"
  by (simp add: isNotBlank_def checkNotBlank_def)

lemma isId_eq_None: "isId n v = None \<longleftrightarrow> length v = IdLen \<and> matchIdPattern v"
  by (simp add: isId_def)

lemma isId_field_name: "isId n v = isId n' v"
  by (simp add: isId_def)

lemma respond_Inr:
  "respond wrap out = Inr (r, e, h') \<Longrightarrow> \<exists>r0. out = Inr (r0, e, h') \<and> r = wrap r0"
  by (auto simp: respond_def split: sum.splits)


lemma generatedId_isId: 
  assumes "generatedId v" shows "isId n v = None"
proof -
  from assms have len: "length v = IdLen" and hex: "list_all hexDigit v"
    by (simp_all add: generatedId_def)
  from len obtain c cs where v: "v = c # cs"
    by (cases v) (simp_all add: IdLen_def)
  with hex have "hexDigit c" by simp
  then have "idChar c" by (auto simp: hexDigit_def idChar_def)
  with v have "matchIdPattern v" by (simp add: matchIdPattern_def)
  with len show ?thesis by (simp add: isId_eq_None)
qed

subsection \<open>Well-formed stores\<close>

lemma wellFormed_empty: "wellFormed okId Map.empty"
  by (simp add: wellFormed_def)

lemma wellFormed_delete: "wellFormed okId h \<Longrightarrow> wellFormed okId (h(sid := None))"
  by (simp add: wellFormed_def)

lemma wellFormed_update:
  assumes "wellFormed okId h" and "okId sid" and "s_Id (rs_Session rs) = sid"
    and "\<not> allSpace (s_Name (rs_Session rs))"
    and "\<And>pid p. rs_participants rs pid = Some p \<Longrightarrow>
           okId pid \<and> p_Id p = pid \<and> p_SessionId p = sid \<and> \<not> allSpace (p_Name p)"
  shows "wellFormed okId (h(sid \<mapsto> rs))"
  using assms unfolding wellFormed_def by (auto split: if_splits)

lemma wellFormed_session:
  "wellFormed okId h \<Longrightarrow> h sid = Some rs \<Longrightarrow>
     okId sid \<and> s_Id (rs_Session rs) = sid \<and> \<not> allSpace (s_Name (rs_Session rs))"
  unfolding wellFormed_def by blast

lemma wellFormed_participant:
  "wellFormed okId h \<Longrightarrow> h sid = Some rs \<Longrightarrow> rs_participants rs pid = Some p \<Longrightarrow>
     okId pid \<and> p_Id p = pid \<and> p_SessionId p = sid \<and> \<not> allSpace (p_Name p)"
  unfolding wellFormed_def by blast


lemma wellFormed_participants_update:
  assumes wf: "wellFormed okId h" and reg: "h sid = Some rs"
    and ps: "\<And>pid p. m pid = Some p \<Longrightarrow>
           okId pid \<and> p_Id p = pid \<and> p_SessionId p = sid \<and> \<not> allSpace (p_Name p)"
  shows "wellFormed okId (h(sid \<mapsto> rs\<lparr>rs_participants := m\<rparr>))"
proof (rule wellFormed_update [OF wf])
  show "okId sid" using wellFormed_session [OF wf reg] by simp
  show "s_Id (rs_Session (rs\<lparr>rs_participants := m\<rparr>)) = sid"
    using wellFormed_session [OF wf reg] by simp
  show "\<not> allSpace (s_Name (rs_Session (rs\<lparr>rs_participants := m\<rparr>)))"
    using wellFormed_session [OF wf reg] by simp
  show "\<And>pid p. rs_participants (rs\<lparr>rs_participants := m\<rparr>) pid = Some p \<Longrightarrow>
           okId pid \<and> p_Id p = pid \<and> p_SessionId p = sid \<and> \<not> allSpace (p_Name p)"
    using ps by simp
qed

lemma wellFormed_participant_added:
  assumes wf: "wellFormed okId h" and reg: "h sid = Some rs"
    and P: "okId (p_Id P)" "p_SessionId P = sid" "\<not> allSpace (p_Name P)"
  shows "wellFormed okId (h(sid \<mapsto> rs\<lparr>rs_participants := (rs_participants rs)(p_Id P \<mapsto> P)\<rparr>))"
proof (rule wellFormed_participants_update [OF wf reg])
  fix pid p
  assume "((rs_participants rs)(p_Id P \<mapsto> P)) pid = Some p"
  then show "okId pid \<and> p_Id p = pid \<and> p_SessionId p = sid \<and> \<not> allSpace (p_Name p)"
    using P wellFormed_participant [OF wf reg, of pid p] by (auto split: if_splits)
qed

lemma wellFormed_participant_removed:
  assumes wf: "wellFormed okId h" and reg: "h sid = Some rs"
  shows "wellFormed okId (h(sid \<mapsto> rs\<lparr>rs_participants := (rs_participants rs)(pid := None)\<rparr>))"
proof (rule wellFormed_participants_update [OF wf reg])
  fix q p
  assume "((rs_participants rs)(pid := None)) q = Some p"
  then show "okId q \<and> p_Id p = q \<and> p_SessionId p = sid \<and> \<not> allSpace (p_Name p)"
    using wellFormed_participant [OF wf reg, of q p] by (auto split: if_splits)
qed

subsection \<open>Well-formedness is kept by every operation\<close>

lemma Mock_CreateSession_wf:
  assumes "wellFormed okId h" "okId newId"
    "MockSessionHandler_CreateSession h newId now p = Inr (r, e, h')"
  shows "wellFormed okId h'"
  using assms
  by (auto simp: MockSessionHandler_CreateSession_def checkNotBlank_def Let_def
      split: option.splits if_splits intro!: wellFormed_update)

lemma Mock_DeleteSession_wf:
  assumes "wellFormed okId h"
    "MockSessionHandler_DeleteSession parse h p = Inr (r, e, h')"
  shows "wellFormed okId h'"
  using assms
  by (auto simp: MockSessionHandler_DeleteSession_def Let_def
      split: option.splits if_splits intro!: wellFormed_delete)

lemma Mock_AddParticipant_wf:
  assumes wf: "wellFormed okId h" and ok: "okId newId"
    and run: "MockSessionHandler_AddParticipant parse h newId now p = Inr (r, e, h')"
  shows "wellFormed okId h'"
proof (cases "h' = h")
  case True
  then show ?thesis using wf by simp
next
  case False
  then obtain rs where reg: "h (app_SessionId p) = Some rs"
    and name: "\<not> allSpace (app_Name p)"
    and h': "h' = h(app_SessionId p \<mapsto> rs\<lparr>rs_participants := (rs_participants rs)
          (newId \<mapsto> \<lparr>p_Name = app_Name p, p_Id = newId, p_SessionId = s_Id (rs_Session rs),
                      p_CreationDateTime = now\<rparr>)\<rparr>)"
    using run
    by (auto simp: MockSessionHandler_AddParticipant_def checkNotBlank_def Let_def
        split: option.splits if_splits)
  have "s_Id (rs_Session rs) = app_SessionId p"
    using wellFormed_session [OF wf reg] by simp
  then show ?thesis
    unfolding h'
    using ok name
      wellFormed_participant_added [OF wf reg,
        of "\<lparr>p_Name = app_Name p, p_Id = newId, p_SessionId = s_Id (rs_Session rs),
             p_CreationDateTime = now\<rparr>"]
    by simp
qed

lemma Mock_UpdateParticipant_wf:
  assumes wf: "wellFormed okId h"
    and run: "MockSessionHandler_UpdateParticipant h p = Inr (r, e, h')"
  shows "wellFormed okId h'"
proof (cases "h' = h")
  case True
  then show ?thesis using wf by simp
next
  case False
  then obtain rs P where reg: "h (upp_SessionId p) = Some rs"
    and part: "rs_participants rs (upp_ParticipantId p) = Some P"
    and name: "\<not> allSpace (upp_Name p)"
    and h': "h' = h(upp_SessionId p \<mapsto> rs\<lparr>rs_participants := (rs_participants rs)
          (upp_ParticipantId p \<mapsto> P\<lparr>p_Name := upp_Name p\<rparr>)\<rparr>)"
    using run
    by (auto simp: MockSessionHandler_UpdateParticipant_def checkNotBlank_def Let_def
        split: option.splits if_splits)
  show ?thesis
    unfolding h'
    using name wellFormed_participant [OF wf reg part]
      wellFormed_participant_added [OF wf reg, of "P\<lparr>p_Name := upp_Name p\<rparr>"]
    by simp
qed

lemma Mock_DeleteParticipant_wf:
  assumes wf: "wellFormed okId h"
    and run: "MockSessionHandler_DeleteParticipant h p = Inr (r, e, h')"
  shows "wellFormed okId h'"
proof (cases "h' = h")
  case True
  then show ?thesis using wf by simp
next
  case False
  then obtain rs pid where reg: "h (dpp_SessionId p) = Some rs"
    and h': "h' = h(dpp_SessionId p \<mapsto> rs\<lparr>rs_participants := (rs_participants rs)
          (pid := None)\<rparr>)"
    using run
    by (auto simp: MockSessionHandler_DeleteParticipant_def Let_def
        split: option.splits if_splits)
  show ?thesis
    unfolding h' by (rule wellFormed_participant_removed [OF wf reg])
qed

lemma MockSessionHandler_call_wf:
  assumes wf: "wellFormed okId h" and ok: "okId newId"
    and run: "MockSessionHandler_call parse h newId now req = Inr (r, e, h')"
  shows "wellFormed okId h'"
proof (cases req)
  case (CreateSession p)
  then show ?thesis using run Mock_CreateSession_wf [OF wf ok] by (auto dest!: respond_Inr)
next
  case (GetSession p)
  then have "h' = h" using run
    by (auto dest!: respond_Inr simp: MockSessionHandler_GetSession_def split: option.splits)
  then show ?thesis using wf by simp
next
  case (DeleteSession p)
  then show ?thesis using run Mock_DeleteSession_wf [OF wf] by (auto dest!: respond_Inr)
next
  case (AddParticipant p)
  then show ?thesis using run Mock_AddParticipant_wf [OF wf ok] by (auto dest!: respond_Inr)
next
  case (GetParticipant p)
  then have "h' = h" using run
    by (auto dest!: respond_Inr simp: MockSessionHandler_GetParticipant_def split: option.splits)
  then show ?thesis using wf by simp
next
  case (UpdateParticipant p)
  then show ?thesis using run Mock_UpdateParticipant_wf [OF wf] by (auto dest!: respond_Inr)
next
  case (DeleteParticipant p)
  then show ?thesis using run Mock_DeleteParticipant_wf [OF wf] by (auto dest!: respond_Inr)
next
  case (GetParticipants p)
  then have "h' = h" using run
    by (auto dest!: respond_Inr simp: MockSessionHandler_GetParticipants_def split: option.splits)
  then show ?thesis using wf by simp
qed

lemma MockSessionHandler_reachable_wellFormed:
  "MockSessionHandler_reachable parse h \<Longrightarrow> wellFormed (\<lambda>v. parse v = None) h"
proof (induction rule: MockSessionHandler_reachable.induct)
  case new
  show ?case by (rule wellFormed_empty)
next
  case (call h newId now req r e h')
  then show ?case by (auto intro: MockSessionHandler_call_wf)
qed

subsection \<open>The two handlers, operation by operation\<close>

text \<open>
  Where the two handlers compute the same: \<open>CreateSession\<close> always, the other operations
  once the checks that only one of them makes have passed. The lemmas carry well-formedness
  from one handler to the other.
\<close>

lemma CreateSession_same:
  "WebRtcSessionHandler_CreateSession h newId now p = MockSessionHandler_CreateSession h newId now p"
  by (simp add: WebRtcSessionHandler_CreateSession_def MockSessionHandler_CreateSession_def
      CreateSessionParams_check_def newSession_def isNotBlank_name appendError_def Let_def
      split: option.splits)

lemma UpdateParticipant_same:
  assumes "isId ''sessionId'' (upp_SessionId p) = None"
    and "isId ''participantId'' (upp_ParticipantId p) = None"
  shows "WebRtcSessionHandler_UpdateParticipant h p = MockSessionHandler_UpdateParticipant h p"
  using assms
  by (simp add: WebRtcSessionHandler_UpdateParticipant_def MockSessionHandler_UpdateParticipant_def
      UpdateParticipantParams_check_def appendError_def doActionOnSession_def Let_def
      isNotBlank_name split: option.splits)

lemma DeleteParticipant_same:
  assumes "isId ''sessionId'' (dpp_SessionId p) = None"
    and "isId ''participantId'' (dpp_ParticipantId p) = None"
    and "wellFormed okId h"
  shows "WebRtcSessionHandler_DeleteParticipant h p = MockSessionHandler_DeleteParticipant h p"
  using assms
  by (auto simp: WebRtcSessionHandler_DeleteParticipant_def MockSessionHandler_DeleteParticipant_def
      DeleteParticipantParams_check_def appendError_def doActionOnSession_def Let_def
      split: option.splits dest: wellFormed_participant)

lemma AddParticipant_same:
  assumes "isId ''sessionId'' (app_SessionId p) = None"
    and "parse (app_SessionId p) = None"
    and "wellFormed okId h"
  shows "WebRtcSessionHandler_AddParticipant h newId now p
       = MockSessionHandler_AddParticipant parse h newId now p"
  using assms
  by (auto simp: WebRtcSessionHandler_AddParticipant_def MockSessionHandler_AddParticipant_def
      AddParticipantParams_check_def appendError_def doActionOnSession_def Let_def
      newParticipant_def isNotBlank_name checkSessionId_eq
      split: option.splits dest: wellFormed_session)

lemma WebRtc_DeleteSession_wf:
  assumes "wellFormed okId h"
    "WebRtcSessionHandler_DeleteSession h p = Inr (r, e, h')"
  shows "wellFormed okId h'"
  using assms
  by (auto simp: WebRtcSessionHandler_DeleteSession_def doActionOnSession_def Let_def
      split: option.splits if_splits intro!: wellFormed_delete)

lemma WebRtc_AddParticipant_wf:
  assumes wf: "wellFormed okId h" and ok: "okId newId"
    and run: "WebRtcSessionHandler_AddParticipant h newId now p = Inr (r, e, h')"
  shows "wellFormed okId h'"
proof (cases "isId ''sessionId'' (app_SessionId p) = None")
  case True
  then have "MockSessionHandler_AddParticipant (\<lambda>v. None) h newId now p = Inr (r, e, h')"
    using run AddParticipant_same [OF True _ wf, of "\<lambda>v. None" newId now] by simp
  then show ?thesis by (rule Mock_AddParticipant_wf [OF wf ok])
next
  case False
  then have "h' = h"
    using run
    by (auto simp: WebRtcSessionHandler_AddParticipant_def AddParticipantParams_check_def
        appendError_def Let_def split: option.splits if_splits)
  then show ?thesis using wf by simp
qed

lemma WebRtc_UpdateParticipant_wf:
  assumes wf: "wellFormed okId h"
    and run: "WebRtcSessionHandler_UpdateParticipant h p = Inr (r, e, h')"
  shows "wellFormed okId h'"
proof (cases "isId ''sessionId'' (upp_SessionId p) = None
            \<and> isId ''participantId'' (upp_ParticipantId p) = None")
  case True
  then have "MockSessionHandler_UpdateParticipant h p = Inr (r, e, h')"
    using run UpdateParticipant_same [of p h] by simp
  then show ?thesis by (rule Mock_UpdateParticipant_wf [OF wf])
next
  case False
  then have "h' = h"
    using run
    by (auto simp: WebRtcSessionHandler_UpdateParticipant_def UpdateParticipantParams_check_def
        appendError_def Let_def split: option.splits if_splits)
  then show ?thesis using wf by simp
qed

lemma WebRtc_DeleteParticipant_wf:
  assumes wf: "wellFormed okId h"
    and run: "WebRtcSessionHandler_DeleteParticipant h p = Inr (r, e, h')"
  shows "wellFormed okId h'"
proof (cases "isId ''sessionId'' (dpp_SessionId p) = None
            \<and> isId ''participantId'' (dpp_ParticipantId p) = None")
  case True
  then have "MockSessionHandler_DeleteParticipant h p = Inr (r, e, h')"
    using run DeleteParticipant_same [of p okId h] wf by simp
  then show ?thesis by (rule Mock_DeleteParticipant_wf [OF wf])
next
  case False
  then have "h' = h"
    using run
    by (auto simp: WebRtcSessionHandler_DeleteParticipant_def DeleteParticipantParams_check_def
        appendError_def Let_def split: option.splits if_splits)
  then show ?thesis using wf by simp
qed

lemma WebRtcSessionHandler_call_wf:
  assumes wf: "wellFormed okId h" and ok: "okId newId"
    and run: "WebRtcSessionHandler_call h newId now req = Inr (r, e, h')"
  shows "wellFormed okId h'"
proof (cases req)
  case (CreateSession p)
  then show ?thesis
    using run Mock_CreateSession_wf [OF wf ok]
    by (auto dest!: respond_Inr simp: CreateSession_same)
next
  case (GetSession p)
  then have "h' = h" using run
    by (auto dest!: respond_Inr
        simp: WebRtcSessionHandler_GetSession_def doActionOnSession_def Let_def
        split: option.splits if_splits)
  then show ?thesis using wf by simp
next
  case (DeleteSession p)
  then show ?thesis using run WebRtc_DeleteSession_wf [OF wf] by (auto dest!: respond_Inr)
next
  case (AddParticipant p)
  then show ?thesis using run WebRtc_AddParticipant_wf [OF wf ok] by (auto dest!: respond_Inr)
next
  case (GetParticipant p)
  then have "h' = h" using run
    by (auto dest!: respond_Inr
        simp: WebRtcSessionHandler_GetParticipant_def doActionOnSession_def Let_def
        split: option.splits if_splits)
  then show ?thesis using wf by simp
next
  case (UpdateParticipant p)
  then show ?thesis using run WebRtc_UpdateParticipant_wf [OF wf] by (auto dest!: respond_Inr)
next
  case (DeleteParticipant p)
  then show ?thesis using run WebRtc_DeleteParticipant_wf [OF wf] by (auto dest!: respond_Inr)
next
  case (GetParticipants p)
  then have "h' = h" using run
    by (auto dest!: respond_Inr
        simp: WebRtcSessionHandler_GetParticipants_def doActionOnSession_def Let_def
        split: option.splits if_splits)
  then show ?thesis using wf by simp
qed

lemma WebRtcSessionHandler_reachable_wellFormed:
  "WebRtcSessionHandler_reachable h \<Longrightarrow> wellFormed generatedId h"
proof (induction rule: WebRtcSessionHandler_reachable.induct)
  case new
  show ?case by (simp add: NewWebRtcSessionHandler_def wellFormed_empty)
next
  case (call h newId now req r e h')
  then show ?case by (auto intro: WebRtcSessionHandler_call_wf)
qed

subsection \<open>The example store is reachable\<close>

lemma sampleStore_WebRtc_reachable:
  assumes sid: "generatedId sid" and pid: "generatedId pid"
  shows "WebRtcSessionHandler_reachable (sampleStore sid pid)"
proof -
  let ?S = "\<lparr>s_Name = ''standup'', s_Id = sid,
             s_CreationDateTime = ''2024-05-06T09:00:00 +000000''\<rparr>"
  let ?P = "\<lparr>p_Name = ''alice'', p_Id = pid, p_SessionId = sid,
             p_CreationDateTime = ''2024-05-06T09:00:05 +000000''\<rparr>"
  let ?h1 = "[sid \<mapsto> \<lparr>rs_Session = ?S, rs_participants = Map.empty\<rparr>]"
  have created: "WebRtcSessionHandler_call NewWebRtcSessionHandler sid
        ''2024-05-06T09:00:00 +000000'' (CreateSession \<lparr>csp_Name = ''standup''\<rparr>)
      = Inr (SessionResponse \<lparr>res_Session = Some ?S, res_Errors = []\<rparr>, None, ?h1)"
    by (simp add: Let_def respond_def WebRtcSessionHandler_CreateSession_def CreateSessionParams_check_def
        appendError_def isNotBlank_def asciiSpace_def newSession_def NewWebRtcSessionHandler_def)
  have r1: "WebRtcSessionHandler_reachable ?h1"
    by (rule WebRtcSessionHandler_reachable.call
          [OF WebRtcSessionHandler_reachable.new sid created])
  have added: "WebRtcSessionHandler_call ?h1 pid ''2024-05-06T09:00:05 +000000''
        (AddParticipant \<lparr>app_SessionId = sid, app_Name = ''alice''\<rparr>)
      = Inr (ParticipantResponse \<lparr>pres_Participant = Some ?P, pres_Errors = []\<rparr>, None,
             sampleStore sid pid)"
    using generatedId_isId [OF sid, of "''sessionId''"]
    by (simp add: Let_def respond_def WebRtcSessionHandler_AddParticipant_def
        AddParticipantParams_check_def appendError_def isNotBlank_def asciiSpace_def
        newParticipant_def doActionOnSession_def sampleStore_def)
  show ?thesis
    by (rule WebRtcSessionHandler_reachable.call [OF r1 pid added])
qed

lemma sampleStore_Mock_reachable:
  assumes sid: "parse sid = None" and pid: "parse pid = None"
  shows "MockSessionHandler_reachable parse (sampleStore sid pid)"
proof -
  let ?S = "\<lparr>s_Name = ''standup'', s_Id = sid,
             s_CreationDateTime = ''2024-05-06T09:00:00 +000000''\<rparr>"
  let ?P = "\<lparr>p_Name = ''alice'', p_Id = pid, p_SessionId = sid,
             p_CreationDateTime = ''2024-05-06T09:00:05 +000000''\<rparr>"
  let ?h1 = "[sid \<mapsto> \<lparr>rs_Session = ?S, rs_participants = Map.empty\<rparr>]"
  have created: "MockSessionHandler_call parse Map.empty sid
        ''2024-05-06T09:00:00 +000000'' (CreateSession \<lparr>csp_Name = ''standup''\<rparr>)
      = Inr (SessionResponse \<lparr>res_Session = Some ?S, res_Errors = []\<rparr>, None, ?h1)"
    by (simp add: Let_def respond_def MockSessionHandler_CreateSession_def checkNotBlank_def
        asciiSpace_def)
  have r1: "MockSessionHandler_reachable parse ?h1"
    by (rule MockSessionHandler_reachable.call
          [OF MockSessionHandler_reachable.new sid created])
  have added: "MockSessionHandler_call parse ?h1 pid ''2024-05-06T09:00:05 +000000''
        (AddParticipant \<lparr>app_SessionId = sid, app_Name = ''alice''\<rparr>)
      = Inr (ParticipantResponse \<lparr>pres_Participant = Some ?P, pres_Errors = []\<rparr>, None,
             sampleStore sid pid)"
    using sid
    by (simp add: Let_def respond_def MockSessionHandler_AddParticipant_def checkSessionId_eq
        checkNotBlank_def asciiSpace_def sampleStore_def)
  show ?thesis
    by (rule MockSessionHandler_reachable.call [OF r1 pid added])
qed

lemma standupStore_WebRtc_reachable:
  assumes sid: "generatedId sid"
  shows "WebRtcSessionHandler_reachable (standupStore sid)"
proof -
  have created: "WebRtcSessionHandler_call NewWebRtcSessionHandler sid
        ''2024-05-06T09:00:00 +000000'' (CreateSession \<lparr>csp_Name = ''standup''\<rparr>)
      = Inr (SessionResponse
               \<lparr>res_Session = Some \<lparr>s_Name = ''standup'', s_Id = sid,
                                      s_CreationDateTime = ''2024-05-06T09:00:00 +000000''\<rparr>,
                res_Errors = []\<rparr>, None, standupStore sid)"
    by (simp add: Let_def respond_def WebRtcSessionHandler_CreateSession_def
        CreateSessionParams_check_def appendError_def isNotBlank_def asciiSpace_def
        newSession_def NewWebRtcSessionHandler_def standupStore_def)
  show ?thesis
    by (rule WebRtcSessionHandler_reachable.call
          [OF WebRtcSessionHandler_reachable.new sid created])
qed

lemma standupStore_Mock_reachable:
  assumes sid: "parse sid = None"
  shows "MockSessionHandler_reachable parse (standupStore sid)"
proof -
  have created: "MockSessionHandler_call parse Map.empty sid
        ''2024-05-06T09:00:00 +000000'' (CreateSession \<lparr>csp_Name = ''standup''\<rparr>)
      = Inr (SessionResponse
               \<lparr>res_Session = Some \<lparr>s_Name = ''standup'', s_Id = sid,
                                      s_CreationDateTime = ''2024-05-06T09:00:00 +000000''\<rparr>,
                res_Errors = []\<rparr>, None, standupStore sid)"
    by (simp add: Let_def respond_def MockSessionHandler_CreateSession_def checkNotBlank_def
        asciiSpace_def standupStore_def)
  show ?thesis
    by (rule MockSessionHandler_reachable.call
          [OF MockSessionHandler_reachable.new sid created])
qed

lemma generatedId_examples:
  "generatedId ''0123456789''" "generatedId ''89abcdef01''" "generatedId ''aaaaaaaaaa''"
  "generatedId ''ffffffffff''"
  by (simp_all add: generatedId_def IdLen_def hexDigit_def)

lemma webRtcStore_reachable: "WebRtcSessionHandler_reachable webRtcStore"
  by (rule sampleStore_WebRtc_reachable) (rule generatedId_examples)+

lemma mockStore_reachable: "MockSessionHandler_reachable acceptCanonicalLength mockStore"
  by (rule sampleStore_Mock_reachable) (simp_all add: acceptCanonicalLength_def)

subsection \<open>Which calls return\<close>

text \<open>
  No operation returns an \<open>error\<close>. Every call of \<open>WebRtcSessionHandler\<close> returns;
  a call of \<open>MockSessionHandler\<close> panics in one case only, \<open>GetSession\<close> or \<open>DeleteSession\<close>
  with an id that parses and is not registered.
\<close>

lemma WebRtcSessionHandler_call_returns:
  "\<exists>r h'. WebRtcSessionHandler_call h newId now req = Inr (r, None, h')"
proof (cases req)
  case (CreateSession p)
  then show ?thesis
    by (simp add: respond_def WebRtcSessionHandler_CreateSession_def Let_def)
next
  case (GetSession p)
  then show ?thesis
    by (simp add: respond_def WebRtcSessionHandler_GetSession_def doActionOnSession_def Let_def
        split: option.splits)
next
  case (DeleteSession p)
  then show ?thesis
    by (simp add: respond_def WebRtcSessionHandler_DeleteSession_def doActionOnSession_def
        Let_def split: option.splits)
next
  case (AddParticipant p)
  then show ?thesis
    by (simp add: respond_def WebRtcSessionHandler_AddParticipant_def doActionOnSession_def
        Let_def split: option.splits)
next
  case (GetParticipant p)
  then show ?thesis
    by (simp add: respond_def WebRtcSessionHandler_GetParticipant_def doActionOnSession_def
        Let_def split: option.splits)
next
  case (UpdateParticipant p)
  then show ?thesis
    by (simp add: respond_def WebRtcSessionHandler_UpdateParticipant_def doActionOnSession_def
        Let_def split: option.splits)
next
  case (DeleteParticipant p)
  then show ?thesis
    by (simp add: respond_def WebRtcSessionHandler_DeleteParticipant_def doActionOnSession_def
        Let_def split: option.splits)
next
  case (GetParticipants p)
  then show ?thesis
    by (simp add: respond_def WebRtcSessionHandler_GetParticipants_def doActionOnSession_def
        Let_def split: option.splits)
qed

lemma fault_unique: "(f :: fault) = g"
  by (cases f, cases g) simp

lemma MockSessionHandler_call_faults:
  "MockSessionHandler_call parse h newId now req = Inl f \<longleftrightarrow>
     (\<exists>sid. (req = GetSession \<lparr>gsp_Id = sid\<rparr> \<or> req = DeleteSession \<lparr>dsp_Id = sid\<rparr>)
            \<and> parse sid = None \<and> h sid = None)"
proof (cases req)
  case (CreateSession p)
  then show ?thesis
    by (simp add: respond_def MockSessionHandler_CreateSession_def Let_def split: option.splits)
next
  case (GetSession p)
  then show ?thesis
    by (cases p) (auto simp: respond_def MockSessionHandler_GetSession_def checkSessionId_eq
        fault_unique [of NilPointerDereference] split: option.splits)
next
  case (DeleteSession p)
  then show ?thesis
    by (cases p) (auto simp: respond_def MockSessionHandler_DeleteSession_def checkSessionId_eq
        fault_unique [of NilPointerDereference] Let_def split: option.splits)
next
  case (AddParticipant p)
  then show ?thesis
    by (simp add: respond_def MockSessionHandler_AddParticipant_def Let_def split: option.splits)
next
  case (GetParticipant p)
  then show ?thesis
    by (simp add: respond_def MockSessionHandler_GetParticipant_def Let_def split: option.splits)
next
  case (UpdateParticipant p)
  then show ?thesis
    by (simp add: respond_def MockSessionHandler_UpdateParticipant_def Let_def
        split: option.splits)
next
  case (DeleteParticipant p)
  then show ?thesis
    by (simp add: respond_def MockSessionHandler_DeleteParticipant_def Let_def
        split: option.splits)
next
  case (GetParticipants p)
  then show ?thesis
    by (simp add: respond_def MockSessionHandler_GetParticipants_def split: option.splits)
qed

lemma MockSessionHandler_call_no_error:
  "MockSessionHandler_call parse h newId now req = Inr (r, e, h') \<Longrightarrow> e = None"
  by (cases req)
    (auto simp: respond_def MockSessionHandler_CreateSession_def MockSessionHandler_GetSession_def
      MockSessionHandler_DeleteSession_def MockSessionHandler_AddParticipant_def
      MockSessionHandler_GetParticipant_def MockSessionHandler_UpdateParticipant_def
      MockSessionHandler_DeleteParticipant_def MockSessionHandler_GetParticipants_def Let_def
      split: option.splits sum.splits)

subsection \<open>Where the handlers leave the contract\<close>

text \<open>
  Claim C1 (every operation returns normally; \<open>GetSession\<close> and \<open>DeleteSession\<close> with a
  well-formed id that is not registered return an absent session and no errors).
  \<open>MockSessionHandler\<close> does not: when the id parses and no session is registered under
  it, \<open>h.sessions[p.Id]\<close> is \<open>nil\<close> and both operations panic on
  \<open>&registeredSession.Session\<close> instead of returning.
\<close>

theorem MockSessionHandler_absent_session_panics:
  assumes "parse sid = None" and "h sid = None"
  shows "MockSessionHandler_GetSession parse h \<lparr>gsp_Id = sid\<rparr> = Inl NilPointerDereference
       \<and> MockSessionHandler_DeleteSession parse h \<lparr>dsp_Id = sid\<rparr> = Inl NilPointerDereference"
  using assms
  by (simp add: MockSessionHandler_GetSession_def MockSessionHandler_DeleteSession_def
      checkSessionId_eq)

theorem MockSessionHandler_absent_session_panics_witness:
  "acceptCanonicalLength ''123e4567-e89b-42d3-a456-426614174000'' = None
   \<and> (Map.empty :: store) ''123e4567-e89b-42d3-a456-426614174000'' = None
   \<and> MockSessionHandler_GetSession acceptCanonicalLength Map.empty
        \<lparr>gsp_Id = ''123e4567-e89b-42d3-a456-426614174000''\<rparr> = Inl NilPointerDereference
   \<and> MockSessionHandler_DeleteSession acceptCanonicalLength Map.empty
        \<lparr>dsp_Id = ''123e4567-e89b-42d3-a456-426614174000''\<rparr> = Inl NilPointerDereference"
  using MockSessionHandler_absent_session_panics
      [where parse = acceptCanonicalLength and h = Map.empty
         and sid = "''123e4567-e89b-42d3-a456-426614174000''"]
  by (simp add: acceptCanonicalLength_def)

text \<open>
  Claim C2 (an id with a character outside the allowed set gets a validation error from
  \<open>GetSession\<close> and \<open>DeleteSession\<close>, never a not-found result). The id \<open>abc!defghi\<close> has
  the right length and holds \<open>!\<close>, which is outside the class; the pattern of \<open>isId\<close> is
  not anchored and matches on the letter \<open>a\<close>, so \<open>WebRtcSessionHandler\<close> accepts the id
  and answers not-found: no session and no errors.
\<close>

theorem WebRtcSessionHandler_accepts_id_with_foreign_character:
  "\<not> idChar (CHR ''!'')
   \<and> CHR ''!'' \<in> set ''abc!defghi''
   \<and> isId ''id'' ''abc!defghi'' = None
   \<and> WebRtcSessionHandler_GetSession NewWebRtcSessionHandler \<lparr>gsp_Id = ''abc!defghi''\<rparr>
       = Inr (\<lparr>res_Session = None, res_Errors = []\<rparr>, None, NewWebRtcSessionHandler)
   \<and> WebRtcSessionHandler_DeleteSession NewWebRtcSessionHandler \<lparr>dsp_Id = ''abc!defghi''\<rparr>
       = Inr (\<lparr>res_Session = None, res_Errors = []\<rparr>, None, NewWebRtcSessionHandler)"
  by (simp add: WebRtcSessionHandler_GetSession_def WebRtcSessionHandler_DeleteSession_def
      GetSessionParams_check_def DeleteSessionParams_check_def appendError_def
      NewWebRtcSessionHandler_def isId_def IdLen_def matchIdPattern_def idChar_def
      doActionOnSession_def)

text \<open>
  Claim C3 (with two or more invalid fields, the errors list has one entry for each).
  \<open>MockSessionHandler.AddParticipant\<close> returns at the first failed check: with a session
  id the parser rejects and a blank name, the list holds the parser's error alone.
  \<open>MockSessionHandler.UpdateParticipant\<close> checks the name only: whatever the two ids are,
  a blank name gives the one entry for the name.
\<close>

theorem MockSessionHandler_reports_first_error_only:
  assumes "parse sid = Some e" and "allSpace name"
  shows "MockSessionHandler_AddParticipant parse h newId now
           \<lparr>app_SessionId = sid, app_Name = name\<rparr>
         = Inr (\<lparr>pres_Participant = None, pres_Errors = [e]\<rparr>, None, h)
       \<and> MockSessionHandler_UpdateParticipant h
           \<lparr>upp_SessionId = sid, upp_ParticipantId = pid, upp_Name = name\<rparr>
         = Inr (\<lparr>pres_Participant = None, pres_Errors = [''name must not be blank'']\<rparr>, None, h)"
  using assms
  by (simp add: MockSessionHandler_AddParticipant_def MockSessionHandler_UpdateParticipant_def
      checkSessionId_eq checkNotBlank_def)

theorem MockSessionHandler_reports_first_error_only_witness:
  "acceptCanonicalLength ''bad'' = Some ''invalid UUID length''
   \<and> allSpace ''  ''
   \<and> MockSessionHandler_AddParticipant acceptCanonicalLength Map.empty ''n'' ''t''
        \<lparr>app_SessionId = ''bad'', app_Name = ''  ''\<rparr>
      = Inr (\<lparr>pres_Participant = None, pres_Errors = [''invalid UUID length'']\<rparr>, None, Map.empty)
   \<and> MockSessionHandler_UpdateParticipant Map.empty
        \<lparr>upp_SessionId = ''bad'', upp_ParticipantId = ''worse'', upp_Name = ''  ''\<rparr>
      = Inr (\<lparr>pres_Participant = None, pres_Errors = [''name must not be blank'']\<rparr>, None,
             Map.empty)"
  using MockSessionHandler_reports_first_error_only
      [where parse = acceptCanonicalLength and sid = "''bad''" and e = "''invalid UUID length''"
         and name = "''  ''" and h = Map.empty and newId = "''n''" and now = "''t''"
         and pid = "''worse''"]
  by (simp add: acceptCanonicalLength_def asciiSpace_def)

text \<open>
  Claim C4 (the format of every parameter is checked before any lookup, so a malformed
  session id gives a validation error, never "session does not exist").
  \<open>MockSessionHandler\<close> checks no id in \<open>GetParticipant\<close>, \<open>UpdateParticipant\<close> and
  \<open>DeleteParticipant\<close>: the malformed id \<open>bad\<close> goes to the lookup and comes back in the
  "does not exist" error.
\<close>

theorem MockSessionHandler_looks_up_malformed_session_id:
  "isId ''sessionId'' ''bad'' = Some ''bad must be a valid id''
   \<and> acceptCanonicalLength ''bad'' = Some ''invalid UUID length''
   \<and> MockSessionHandler_GetParticipant Map.empty
        \<lparr>gpp_SessionId = ''bad'', gpp_ParticipantId = ''0123456789''\<rparr>
      = Inr (\<lparr>pres_Participant = None, pres_Errors = [''session bad does not exist'']\<rparr>, None,
             Map.empty)
   \<and> MockSessionHandler_UpdateParticipant Map.empty
        \<lparr>upp_SessionId = ''bad'', upp_ParticipantId = ''0123456789'', upp_Name = ''alice''\<rparr>
      = Inr (\<lparr>pres_Participant = None, pres_Errors = [''session bad does not exist'']\<rparr>, None,
             Map.empty)
   \<and> MockSessionHandler_DeleteParticipant Map.empty
        \<lparr>dpp_SessionId = ''bad'', dpp_ParticipantId = ''0123456789''\<rparr>
      = Inr (\<lparr>pres_Participant = None, pres_Errors = [''session bad does not exist'']\<rparr>, None,
             Map.empty)"
  by (simp add: MockSessionHandler_GetParticipant_def MockSessionHandler_UpdateParticipant_def
      MockSessionHandler_DeleteParticipant_def isId_def IdLen_def acceptCanonicalLength_def
      checkNotBlank_def asciiSpace_def sessionDoesNotExist_def)

subsection \<open>Participants: misses, updates and unknown sessions\<close>

text \<open>
  Claim C5, amended. For a registered session and a participant id that is not in it,
  \<open>GetParticipant\<close> and \<open>DeleteParticipant\<close>, and \<open>UpdateParticipant\<close> when the name is not
  blank, return no participant and no errors and leave the store as it was; in
  \<open>WebRtcSessionHandler\<close>, which checks the parameters first, when both ids pass \<open>isId\<close>.
\<close>

theorem missing_participant_quiet_miss:
  assumes "h sid = Some rs" and "rs_participants rs pid = None"
  shows "MockSessionHandler_GetParticipant h \<lparr>gpp_SessionId = sid, gpp_ParticipantId = pid\<rparr>
           = Inr (\<lparr>pres_Participant = None, pres_Errors = []\<rparr>, None, h)
       \<and> MockSessionHandler_DeleteParticipant h \<lparr>dpp_SessionId = sid, dpp_ParticipantId = pid\<rparr>
           = Inr (\<lparr>pres_Participant = None, pres_Errors = []\<rparr>, None, h)
       \<and> (\<not> allSpace name \<longrightarrow>
            MockSessionHandler_UpdateParticipant h
              \<lparr>upp_SessionId = sid, upp_ParticipantId = pid, upp_Name = name\<rparr>
            = Inr (\<lparr>pres_Participant = None, pres_Errors = []\<rparr>, None, h))
       \<and> (isId ''sessionId'' sid = None \<and> isId ''participantId'' pid = None \<longrightarrow>
            WebRtcSessionHandler_GetParticipant h \<lparr>gpp_SessionId = sid, gpp_ParticipantId = pid\<rparr>
              = Inr (\<lparr>pres_Participant = None, pres_Errors = []\<rparr>, None, h)
          \<and> WebRtcSessionHandler_DeleteParticipant h
                \<lparr>dpp_SessionId = sid, dpp_ParticipantId = pid\<rparr>
              = Inr (\<lparr>pres_Participant = None, pres_Errors = []\<rparr>, None, h)
          \<and> (\<not> allSpace name \<longrightarrow>
               WebRtcSessionHandler_UpdateParticipant h
                 \<lparr>upp_SessionId = sid, upp_ParticipantId = pid, upp_Name = name\<rparr>
               = Inr (\<lparr>pres_Participant = None, pres_Errors = []\<rparr>, None, h)))"
  using assms
  by (simp add: MockSessionHandler_GetParticipant_def MockSessionHandler_DeleteParticipant_def
      MockSessionHandler_UpdateParticipant_def WebRtcSessionHandler_GetParticipant_def
      WebRtcSessionHandler_DeleteParticipant_def WebRtcSessionHandler_UpdateParticipant_def
      GetParticipantParams_check_def DeleteParticipantParams_check_def
      UpdateParticipantParams_check_def appendError_def doActionOnSession_def
      checkNotBlank_def isNotBlank_def)

theorem missing_participant_quiet_miss_witness:
  "mockStore ''123e4567-e89b-42d3-a456-426614174000'' \<noteq> None
   \<and> webRtcStore ''0123456789'' \<noteq> None
   \<and> \<not> allSpace ''alice2''
   \<and> isId ''sessionId'' ''0123456789'' = None \<and> isId ''participantId'' ''ffffffffff'' = None
   \<and> MockSessionHandler_GetParticipant mockStore
        \<lparr>gpp_SessionId = ''123e4567-e89b-42d3-a456-426614174000'',
         gpp_ParticipantId = ''5f0c2d1e-3b4a-4f6e-9d8c-7b6a5f4e3d2c''\<rparr>
      = Inr (\<lparr>pres_Participant = None, pres_Errors = []\<rparr>, None, mockStore)
   \<and> MockSessionHandler_DeleteParticipant mockStore
        \<lparr>dpp_SessionId = ''123e4567-e89b-42d3-a456-426614174000'',
         dpp_ParticipantId = ''5f0c2d1e-3b4a-4f6e-9d8c-7b6a5f4e3d2c''\<rparr>
      = Inr (\<lparr>pres_Participant = None, pres_Errors = []\<rparr>, None, mockStore)
   \<and> MockSessionHandler_UpdateParticipant mockStore
        \<lparr>upp_SessionId = ''123e4567-e89b-42d3-a456-426614174000'',
         upp_ParticipantId = ''5f0c2d1e-3b4a-4f6e-9d8c-7b6a5f4e3d2c'', upp_Name = ''alice2''\<rparr>
      = Inr (\<lparr>pres_Participant = None, pres_Errors = []\<rparr>, None, mockStore)
   \<and> WebRtcSessionHandler_GetParticipant webRtcStore
        \<lparr>gpp_SessionId = ''0123456789'', gpp_ParticipantId = ''ffffffffff''\<rparr>
      = Inr (\<lparr>pres_Participant = None, pres_Errors = []\<rparr>, None, webRtcStore)
   \<and> WebRtcSessionHandler_DeleteParticipant webRtcStore
        \<lparr>dpp_SessionId = ''0123456789'', dpp_ParticipantId = ''ffffffffff''\<rparr>
      = Inr (\<lparr>pres_Participant = None, pres_Errors = []\<rparr>, None, webRtcStore)
   \<and> WebRtcSessionHandler_UpdateParticipant webRtcStore
        \<lparr>upp_SessionId = ''0123456789'', upp_ParticipantId = ''ffffffffff'', upp_Name = ''alice2''\<rparr>
      = Inr (\<lparr>pres_Participant = None, pres_Errors = []\<rparr>, None, webRtcStore)"
  using missing_participant_quiet_miss
      [where h = mockStore and sid = "''123e4567-e89b-42d3-a456-426614174000''"
         and pid = "''5f0c2d1e-3b4a-4f6e-9d8c-7b6a5f4e3d2c''" and name = "''alice2''"
         and rs = "the (mockStore ''123e4567-e89b-42d3-a456-426614174000'')"]
    missing_participant_quiet_miss
      [where h = webRtcStore and sid = "''0123456789''"
         and pid = "''ffffffffff''" and name = "''alice2''"
         and rs = "the (webRtcStore ''0123456789'')"]
  by (simp add: sampleStore_def isId_def IdLen_def matchIdPattern_def idChar_def asciiSpace_def)

text \<open>
  Claim C5 as it is stated fails in the example stores: the session is registered and
  holds no participant under the id given, yet \<open>UpdateParticipant\<close> with a blank name
  returns an error in both handlers, and \<open>WebRtcSessionHandler.GetParticipant\<close> returns an
  error for the participant id \<open>nobody\<close>.
\<close>

theorem missing_participant_quiet_miss_counterexample:
  "mockStore ''123e4567-e89b-42d3-a456-426614174000'' \<noteq> None
   \<and> rs_participants (the (mockStore ''123e4567-e89b-42d3-a456-426614174000''))
        ''5f0c2d1e-3b4a-4f6e-9d8c-7b6a5f4e3d2c'' = None
   \<and> MockSessionHandler_UpdateParticipant mockStore
        \<lparr>upp_SessionId = ''123e4567-e89b-42d3-a456-426614174000'',
         upp_ParticipantId = ''5f0c2d1e-3b4a-4f6e-9d8c-7b6a5f4e3d2c'', upp_Name = ''  ''\<rparr>
      = Inr (\<lparr>pres_Participant = None, pres_Errors = [''name must not be blank'']\<rparr>, None,
             mockStore)
   \<and> webRtcStore ''0123456789'' \<noteq> None
   \<and> rs_participants (the (webRtcStore ''0123456789'')) ''ffffffffff'' = None
   \<and> rs_participants (the (webRtcStore ''0123456789'')) ''nobody'' = None
   \<and> WebRtcSessionHandler_UpdateParticipant webRtcStore
        \<lparr>upp_SessionId = ''0123456789'', upp_ParticipantId = ''ffffffffff'', upp_Name = ''  ''\<rparr>
      = Inr (\<lparr>pres_Participant = None, pres_Errors = [''name must not be blank'']\<rparr>, None,
             webRtcStore)
   \<and> WebRtcSessionHandler_GetParticipant webRtcStore
        \<lparr>gpp_SessionId = ''0123456789'', gpp_ParticipantId = ''nobody''\<rparr>
      = Inr (\<lparr>pres_Participant = None, pres_Errors = [''nobody must be a valid id'']\<rparr>, None,
             webRtcStore)"
  by (simp add: sampleStore_def MockSessionHandler_UpdateParticipant_def
      WebRtcSessionHandler_UpdateParticipant_def WebRtcSessionHandler_GetParticipant_def
      UpdateParticipantParams_check_def GetParticipantParams_check_def appendError_def
      checkNotBlank_def isNotBlank_def isId_def IdLen_def matchIdPattern_def idChar_def
      asciiSpace_def doActionOnSession_def)

text \<open>
  Claim C6 (\<open>UpdateParticipant\<close> on a participant of a registered session, with a name
  that is not blank, sets the name and leaves the participant's \<open>id\<close>, \<open>sessionId\<close> and
  \<open>creationDateTime\<close>, every other participant and every session record unchanged).
  \<open>MockSessionHandler\<close> does so in every store, \<open>WebRtcSessionHandler\<close> in every store it
  can reach, where the ids of registered sessions and participants pass its format check.
\<close>

theorem UpdateParticipant_changes_name_only:
  assumes reg: "h sid = Some rs" and part: "rs_participants rs pid = Some P"
    and name: "\<not> allSpace name"
  shows "\<exists>P' h' rs'.
           MockSessionHandler_UpdateParticipant h
             \<lparr>upp_SessionId = sid, upp_ParticipantId = pid, upp_Name = name\<rparr>
           = Inr (\<lparr>pres_Participant = Some P', pres_Errors = []\<rparr>, None, h')
         \<and> (WebRtcSessionHandler_reachable h \<longrightarrow>
              WebRtcSessionHandler_UpdateParticipant h
                \<lparr>upp_SessionId = sid, upp_ParticipantId = pid, upp_Name = name\<rparr>
              = Inr (\<lparr>pres_Participant = Some P', pres_Errors = []\<rparr>, None, h'))
         \<and> p_Name P' = name \<and> p_Id P' = p_Id P \<and> p_SessionId P' = p_SessionId P
         \<and> p_CreationDateTime P' = p_CreationDateTime P
         \<and> h' sid = Some rs' \<and> rs_participants rs' pid = Some P'
         \<and> rs_Session rs' = rs_Session rs
         \<and> (\<forall>q. q \<noteq> pid \<longrightarrow> rs_participants rs' q = rs_participants rs q)
         \<and> (\<forall>s. s \<noteq> sid \<longrightarrow> h' s = h s)"
proof -
  let ?p = "\<lparr>upp_SessionId = sid, upp_ParticipantId = pid, upp_Name = name\<rparr>"
  let ?P' = "P\<lparr>p_Name := name\<rparr>"
  let ?rs' = "rs\<lparr>rs_participants := (rs_participants rs)(pid \<mapsto> ?P')\<rparr>"
  let ?h' = "h(sid \<mapsto> ?rs')"
  have mock: "MockSessionHandler_UpdateParticipant h ?p
       = Inr (\<lparr>pres_Participant = Some ?P', pres_Errors = []\<rparr>, None, ?h')"
    using reg part name
    by (simp add: MockSessionHandler_UpdateParticipant_def checkNotBlank_def Let_def)
  have webrtc: "WebRtcSessionHandler_UpdateParticipant h ?p
       = Inr (\<lparr>pres_Participant = Some ?P', pres_Errors = []\<rparr>, None, ?h')"
    if reach: "WebRtcSessionHandler_reachable h"
  proof -
    have wf: "wellFormed generatedId h"
      by (rule WebRtcSessionHandler_reachable_wellFormed [OF reach])
    have "generatedId sid" using wellFormed_session [OF wf reg] by simp
    moreover have "generatedId pid" using wellFormed_participant [OF wf reg part] by simp
    ultimately have "WebRtcSessionHandler_UpdateParticipant h ?p
        = MockSessionHandler_UpdateParticipant h ?p"
      by (intro UpdateParticipant_same) (simp_all add: generatedId_isId)
    then show ?thesis using mock by simp
  qed
  show ?thesis
    apply (rule exI [of _ ?P'], rule exI [of _ ?h'], rule exI [of _ ?rs'])
    using mock webrtc by simp
qed

theorem UpdateParticipant_changes_name_only_witness:
  "WebRtcSessionHandler_reachable webRtcStore
   \<and> \<not> allSpace ''alice2''
   \<and> MockSessionHandler_UpdateParticipant mockStore
        \<lparr>upp_SessionId = ''123e4567-e89b-42d3-a456-426614174000'',
         upp_ParticipantId = ''9b2e1f6c-7a4d-4c3b-8f10-5d6e7f8a9b0c'', upp_Name = ''alice2''\<rparr>
      = Inr (\<lparr>pres_Participant =
                Some \<lparr>p_Name = ''alice2'', p_Id = ''9b2e1f6c-7a4d-4c3b-8f10-5d6e7f8a9b0c'',
                      p_SessionId = ''123e4567-e89b-42d3-a456-426614174000'',
                      p_CreationDateTime = ''2024-05-06T09:00:05 +000000''\<rparr>,
              pres_Errors = []\<rparr>, None,
             [''123e4567-e89b-42d3-a456-426614174000'' \<mapsto>
                \<lparr>rs_Session = \<lparr>s_Name = ''standup'',
                                 s_Id = ''123e4567-e89b-42d3-a456-426614174000'',
                                 s_CreationDateTime = ''2024-05-06T09:00:00 +000000''\<rparr>,
                 rs_participants =
                   [''9b2e1f6c-7a4d-4c3b-8f10-5d6e7f8a9b0c'' \<mapsto>
                      \<lparr>p_Name = ''alice2'', p_Id = ''9b2e1f6c-7a4d-4c3b-8f10-5d6e7f8a9b0c'',
                       p_SessionId = ''123e4567-e89b-42d3-a456-426614174000'',
                       p_CreationDateTime = ''2024-05-06T09:00:05 +000000''\<rparr>]\<rparr>])
   \<and> WebRtcSessionHandler_UpdateParticipant webRtcStore
        \<lparr>upp_SessionId = ''0123456789'', upp_ParticipantId = ''89abcdef01'',
         upp_Name = ''alice2''\<rparr>
      = Inr (\<lparr>pres_Participant =
                Some \<lparr>p_Name = ''alice2'', p_Id = ''89abcdef01'', p_SessionId = ''0123456789'',
                      p_CreationDateTime = ''2024-05-06T09:00:05 +000000''\<rparr>,
              pres_Errors = []\<rparr>, None,
             [''0123456789'' \<mapsto>
                \<lparr>rs_Session = \<lparr>s_Name = ''standup'', s_Id = ''0123456789'',
                                 s_CreationDateTime = ''2024-05-06T09:00:00 +000000''\<rparr>,
                 rs_participants =
                   [''89abcdef01'' \<mapsto>
                      \<lparr>p_Name = ''alice2'', p_Id = ''89abcdef01'', p_SessionId = ''0123456789'',
                       p_CreationDateTime = ''2024-05-06T09:00:05 +000000''\<rparr>]\<rparr>])"
proof -
  let ?pw = "\<lparr>upp_SessionId = ''0123456789'', upp_ParticipantId = ''89abcdef01'',
              upp_Name = ''alice2''\<rparr>"
  let ?pm = "\<lparr>upp_SessionId = ''123e4567-e89b-42d3-a456-426614174000'',
              upp_ParticipantId = ''9b2e1f6c-7a4d-4c3b-8f10-5d6e7f8a9b0c'', upp_Name = ''alice2''\<rparr>"
  have name: "\<not> allSpace ''alice2''"
    by (simp add: asciiSpace_def)
  have regW: "webRtcStore ''0123456789'' = Some (the (webRtcStore ''0123456789''))"
    and partW: "rs_participants (the (webRtcStore ''0123456789'')) ''89abcdef01''
      = Some (the (rs_participants (the (webRtcStore ''0123456789'')) ''89abcdef01''))"
    by (simp_all add: sampleStore_def)
  obtain P' h' where w:
      "MockSessionHandler_UpdateParticipant webRtcStore ?pw
         = Inr (\<lparr>pres_Participant = Some P', pres_Errors = []\<rparr>, None, h')"
      "WebRtcSessionHandler_UpdateParticipant webRtcStore ?pw
         = Inr (\<lparr>pres_Participant = Some P', pres_Errors = []\<rparr>, None, h')"
    using UpdateParticipant_changes_name_only
        [where h = webRtcStore and sid = "''0123456789''", OF regW partW name]
      webRtcStore_reachable
    by blast
  have evalW: "MockSessionHandler_UpdateParticipant webRtcStore ?pw
      = Inr (\<lparr>pres_Participant =
                Some \<lparr>p_Name = ''alice2'', p_Id = ''89abcdef01'', p_SessionId = ''0123456789'',
                      p_CreationDateTime = ''2024-05-06T09:00:05 +000000''\<rparr>,
              pres_Errors = []\<rparr>, None,
             [''0123456789'' \<mapsto>
                \<lparr>rs_Session = \<lparr>s_Name = ''standup'', s_Id = ''0123456789'',
                                 s_CreationDateTime = ''2024-05-06T09:00:00 +000000''\<rparr>,
                 rs_participants =
                   [''89abcdef01'' \<mapsto>
                      \<lparr>p_Name = ''alice2'', p_Id = ''89abcdef01'', p_SessionId = ''0123456789'',
                       p_CreationDateTime = ''2024-05-06T09:00:05 +000000''\<rparr>]\<rparr>])"
    by (simp add: sampleStore_def MockSessionHandler_UpdateParticipant_def checkNotBlank_def
        asciiSpace_def Let_def)
  have same: "WebRtcSessionHandler_UpdateParticipant webRtcStore ?pw
      = MockSessionHandler_UpdateParticipant webRtcStore ?pw"
    using w by simp
  have web: "WebRtcSessionHandler_UpdateParticipant webRtcStore ?pw
      = Inr (\<lparr>pres_Participant =
                Some \<lparr>p_Name = ''alice2'', p_Id = ''89abcdef01'', p_SessionId = ''0123456789'',
                      p_CreationDateTime = ''2024-05-06T09:00:05 +000000''\<rparr>,
              pres_Errors = []\<rparr>, None,
             [''0123456789'' \<mapsto>
                \<lparr>rs_Session = \<lparr>s_Name = ''standup'', s_Id = ''0123456789'',
                                 s_CreationDateTime = ''2024-05-06T09:00:00 +000000''\<rparr>,
                 rs_participants =
                   [''89abcdef01'' \<mapsto>
                      \<lparr>p_Name = ''alice2'', p_Id = ''89abcdef01'', p_SessionId = ''0123456789'',
                       p_CreationDateTime = ''2024-05-06T09:00:05 +000000''\<rparr>]\<rparr>])"
    unfolding same by (rule evalW)
  have mock: "MockSessionHandler_UpdateParticipant mockStore ?pm
      = Inr (\<lparr>pres_Participant =
                Some \<lparr>p_Name = ''alice2'', p_Id = ''9b2e1f6c-7a4d-4c3b-8f10-5d6e7f8a9b0c'',
                      p_SessionId = ''123e4567-e89b-42d3-a456-426614174000'',
                      p_CreationDateTime = ''2024-05-06T09:00:05 +000000''\<rparr>,
              pres_Errors = []\<rparr>, None,
             [''123e4567-e89b-42d3-a456-426614174000'' \<mapsto>
                \<lparr>rs_Session = \<lparr>s_Name = ''standup'',
                                 s_Id = ''123e4567-e89b-42d3-a456-426614174000'',
                                 s_CreationDateTime = ''2024-05-06T09:00:00 +000000''\<rparr>,
                 rs_participants =
                   [''9b2e1f6c-7a4d-4c3b-8f10-5d6e7f8a9b0c'' \<mapsto>
                      \<lparr>p_Name = ''alice2'', p_Id = ''9b2e1f6c-7a4d-4c3b-8f10-5d6e7f8a9b0c'',
                       p_SessionId = ''123e4567-e89b-42d3-a456-426614174000'',
                       p_CreationDateTime = ''2024-05-06T09:00:05 +000000''\<rparr>]\<rparr>])"
    by (simp add: sampleStore_def MockSessionHandler_UpdateParticipant_def checkNotBlank_def
        asciiSpace_def Let_def)
  show ?thesis by (intro conjI webRtcStore_reachable name mock web)
qed

text \<open>
  Claim C7 (\<open>AddParticipant\<close> with a well-formed session id that is not registered and a
  name that is not blank returns the error "session ... does not exist" and no participant,
  and leaves the registry as it was). Well-formed is what the handler's own check accepts:
  \<open>uuid.Parse\<close> for \<open>MockSessionHandler\<close>, \<open>isId\<close> for \<open>WebRtcSessionHandler\<close>.
\<close>

theorem AddParticipant_unknown_session:
  assumes "h sid = None" and "\<not> allSpace name"
  shows "(parse sid = None \<longrightarrow>
            MockSessionHandler_AddParticipant parse h newId now
              \<lparr>app_SessionId = sid, app_Name = name\<rparr>
            = Inr (\<lparr>pres_Participant = None,
                    pres_Errors = [''session '' @ sid @ '' does not exist'']\<rparr>, None, h))
       \<and> (isId ''sessionId'' sid = None \<longrightarrow>
            WebRtcSessionHandler_AddParticipant h newId now
              \<lparr>app_SessionId = sid, app_Name = name\<rparr>
            = Inr (\<lparr>pres_Participant = None,
                    pres_Errors = [''session '' @ sid @ '' does not exist'']\<rparr>, None, h))"
  using assms
  by (simp add: MockSessionHandler_AddParticipant_def WebRtcSessionHandler_AddParticipant_def
      AddParticipantParams_check_def appendError_def doActionOnSession_def checkSessionId_eq
      checkNotBlank_def isNotBlank_def sessionDoesNotExist_def)

theorem AddParticipant_unknown_session_witness:
  "webRtcStore ''aaaaaaaaaa'' = None
   \<and> mockStore ''00000000-0000-4000-8000-000000000000'' = None
   \<and> \<not> allSpace ''bob''
   \<and> acceptCanonicalLength ''00000000-0000-4000-8000-000000000000'' = None
   \<and> isId ''sessionId'' ''aaaaaaaaaa'' = None
   \<and> MockSessionHandler_AddParticipant acceptCanonicalLength
        mockStore
        ''5f0c2d1e-3b4a-4f6e-9d8c-7b6a5f4e3d2c'' ''2024-05-06T09:01:00 +000000''
        \<lparr>app_SessionId = ''00000000-0000-4000-8000-000000000000'', app_Name = ''bob''\<rparr>
      = Inr (\<lparr>pres_Participant = None,
              pres_Errors =
                [''session 00000000-0000-4000-8000-000000000000 does not exist'']\<rparr>,
             None,
             mockStore)
   \<and> WebRtcSessionHandler_AddParticipant webRtcStore
        ''cccccccccc'' ''2024-05-06T09:01:00 +000000''
        \<lparr>app_SessionId = ''aaaaaaaaaa'', app_Name = ''bob''\<rparr>
      = Inr (\<lparr>pres_Participant = None,
              pres_Errors = [''session aaaaaaaaaa does not exist'']\<rparr>, None,
             webRtcStore)"
  using AddParticipant_unknown_session
      [where h = mockStore
         and sid = "''00000000-0000-4000-8000-000000000000''" and name = "''bob''"
         and parse = acceptCanonicalLength
         and newId = "''5f0c2d1e-3b4a-4f6e-9d8c-7b6a5f4e3d2c''"
         and now = "''2024-05-06T09:01:00 +000000''"]
    AddParticipant_unknown_session
      [where h = webRtcStore
         and sid = "''aaaaaaaaaa''" and name = "''bob''"
         and newId = "''cccccccccc''" and now = "''2024-05-06T09:01:00 +000000''"]
  by (simp add: sampleStore_def isId_def IdLen_def matchIdPattern_def idChar_def asciiSpace_def
      acceptCanonicalLength_def)

subsection \<open>Identifiers, names and the two handlers\<close>

text \<open>
  Claim C8, amended. \<open>CreateSession\<close> with a name that is not blank returns, in both
  handlers, a session that carries the name, the generated id and the time stamp, and
  registers it under that id without comparing it with the ids in use. When the generated
  id is not in use, it differs from the id of every registered session and those sessions
  stay registered as they were. In every case \<open>GetSession\<close> with that id, run right after,
  returns the same session and no errors, the generated id being one the handler's own
  check accepts.
\<close>

theorem CreateSession_registers_generated_id:
  assumes name: "\<not> allSpace name"
  shows "\<exists>S h'.
           MockSessionHandler_CreateSession h newId now \<lparr>csp_Name = name\<rparr>
             = Inr (\<lparr>res_Session = Some S, res_Errors = []\<rparr>, None, h')
         \<and> WebRtcSessionHandler_CreateSession h newId now \<lparr>csp_Name = name\<rparr>
             = Inr (\<lparr>res_Session = Some S, res_Errors = []\<rparr>, None, h')
         \<and> s_Name S = name \<and> s_Id S = newId \<and> s_CreationDateTime S = now
         \<and> (h newId = None \<longrightarrow>
               (\<forall>sid rs. h sid = Some rs \<longrightarrow> sid \<noteq> s_Id S \<and> h' sid = Some rs))
         \<and> (h newId = None
              \<and> (MockSessionHandler_reachable parse h \<or> WebRtcSessionHandler_reachable h) \<longrightarrow>
               (\<forall>sid rs. h sid = Some rs \<longrightarrow> s_Id (rs_Session rs) \<noteq> s_Id S))
         \<and> (parse newId = None \<longrightarrow>
               MockSessionHandler_GetSession parse h' \<lparr>gsp_Id = s_Id S\<rparr>
                 = Inr (\<lparr>res_Session = Some S, res_Errors = []\<rparr>, None, h'))
         \<and> (generatedId newId \<longrightarrow>
               WebRtcSessionHandler_GetSession h' \<lparr>gsp_Id = s_Id S\<rparr>
                 = Inr (\<lparr>res_Session = Some S, res_Errors = []\<rparr>, None, h'))"
proof -
  let ?S = "\<lparr>s_Name = name, s_Id = newId, s_CreationDateTime = now\<rparr>"
  let ?h' = "h(newId \<mapsto> \<lparr>rs_Session = ?S, rs_participants = Map.empty\<rparr>)"
  have mock: "MockSessionHandler_CreateSession h newId now \<lparr>csp_Name = name\<rparr>
      = Inr (\<lparr>res_Session = Some ?S, res_Errors = []\<rparr>, None, ?h')"
    using name by (simp add: MockSessionHandler_CreateSession_def checkNotBlank_def Let_def)
  have webrtc: "WebRtcSessionHandler_CreateSession h newId now \<lparr>csp_Name = name\<rparr>
      = Inr (\<lparr>res_Session = Some ?S, res_Errors = []\<rparr>, None, ?h')"
    using mock by (simp add: CreateSession_same)
  have kept: "sid \<noteq> newId \<and> ?h' sid = Some rs" if "h newId = None" "h sid = Some rs" for sid rs
    using that by auto
  have ids: "s_Id (rs_Session rs) \<noteq> newId"
    if fresh: "h newId = None" and reg: "h sid = Some rs"
      and reach: "MockSessionHandler_reachable parse h \<or> WebRtcSessionHandler_reachable h"
    for sid rs
  proof -
    from reach obtain okId where "wellFormed okId h"
      using MockSessionHandler_reachable_wellFormed WebRtcSessionHandler_reachable_wellFormed
      by blast
    then have "s_Id (rs_Session rs) = sid"
      using wellFormed_session reg by blast
    then show ?thesis using fresh reg by auto
  qed
  have getMock: "MockSessionHandler_GetSession parse ?h' \<lparr>gsp_Id = newId\<rparr>
      = Inr (\<lparr>res_Session = Some ?S, res_Errors = []\<rparr>, None, ?h')" if "parse newId = None"
    using that by (simp add: MockSessionHandler_GetSession_def checkSessionId_eq)
  have getWebRtc: "WebRtcSessionHandler_GetSession ?h' \<lparr>gsp_Id = newId\<rparr>
      = Inr (\<lparr>res_Session = Some ?S, res_Errors = []\<rparr>, None, ?h')" if "generatedId newId"
    using generatedId_isId [OF that, of "''id''"]
    by (simp add: WebRtcSessionHandler_GetSession_def GetSessionParams_check_def
        appendError_def doActionOnSession_def)
  show ?thesis
    apply (rule exI [of _ ?S], rule exI [of _ ?h'])
    using mock webrtc kept ids getMock getWebRtc by simp
qed

theorem CreateSession_registers_generated_id_witness:
  "\<not> allSpace ''retro''
   \<and> webRtcStore ''aaaaaaaaaa'' = None
   \<and> WebRtcSessionHandler_reachable webRtcStore
   \<and> generatedId ''aaaaaaaaaa''
   \<and> mockStore ''5f0c2d1e-3b4a-4f6e-9d8c-7b6a5f4e3d2c'' = None
   \<and> acceptCanonicalLength ''5f0c2d1e-3b4a-4f6e-9d8c-7b6a5f4e3d2c'' = None
   \<and> (case WebRtcSessionHandler_CreateSession webRtcStore
              ''aaaaaaaaaa'' ''2024-05-06T09:30:00 +000000'' \<lparr>csp_Name = ''retro''\<rparr> of
         Inl f \<Rightarrow> False
       | Inr (r, e, h') \<Rightarrow>
           res_Session r = Some \<lparr>s_Name = ''retro'', s_Id = ''aaaaaaaaaa'',
                                 s_CreationDateTime = ''2024-05-06T09:30:00 +000000''\<rparr>
         \<and> h' ''0123456789'' = webRtcStore ''0123456789''
         \<and> WebRtcSessionHandler_GetSession h' \<lparr>gsp_Id = ''aaaaaaaaaa''\<rparr>
             = Inr (\<lparr>res_Session = res_Session r, res_Errors = []\<rparr>, None, h'))
   \<and> (case MockSessionHandler_CreateSession mockStore
              ''5f0c2d1e-3b4a-4f6e-9d8c-7b6a5f4e3d2c'' ''2024-05-06T09:30:00 +000000''
              \<lparr>csp_Name = ''retro''\<rparr> of
         Inl f \<Rightarrow> False
       | Inr (r, e, h') \<Rightarrow>
           res_Session r = Some \<lparr>s_Name = ''retro'',
                                 s_Id = ''5f0c2d1e-3b4a-4f6e-9d8c-7b6a5f4e3d2c'',
                                 s_CreationDateTime = ''2024-05-06T09:30:00 +000000''\<rparr>
         \<and> MockSessionHandler_GetSession acceptCanonicalLength h'
               \<lparr>gsp_Id = ''5f0c2d1e-3b4a-4f6e-9d8c-7b6a5f4e3d2c''\<rparr>
             = Inr (\<lparr>res_Session = res_Session r, res_Errors = []\<rparr>, None, h'))"
proof -
  let ?h = webRtcStore
  have name: "\<not> allSpace ''retro''"
    by (simp add: asciiSpace_def)
  have fresh: "?h ''aaaaaaaaaa'' = None"
    by (simp add: sampleStore_def)
  have gen: "generatedId ''aaaaaaaaaa''"
    by (rule generatedId_examples)
  have reach: "WebRtcSessionHandler_reachable ?h"
    by (rule webRtcStore_reachable)
  have freshM: "mockStore ''5f0c2d1e-3b4a-4f6e-9d8c-7b6a5f4e3d2c'' = None"
    by (simp add: sampleStore_def)
  have uuid: "acceptCanonicalLength ''5f0c2d1e-3b4a-4f6e-9d8c-7b6a5f4e3d2c'' = None"
    by (simp add: acceptCanonicalLength_def)
  have reg: "?h ''0123456789'' = Some (the (?h ''0123456789''))"
    by (simp add: sampleStore_def)
  obtain S h' where w:
      "WebRtcSessionHandler_CreateSession ?h ''aaaaaaaaaa'' ''2024-05-06T09:30:00 +000000''
         \<lparr>csp_Name = ''retro''\<rparr> = Inr (\<lparr>res_Session = Some S, res_Errors = []\<rparr>, None, h')"
      "s_Name S = ''retro''" "s_Id S = ''aaaaaaaaaa''"
      "s_CreationDateTime S = ''2024-05-06T09:30:00 +000000''"
      "h' ''0123456789'' = Some (the (?h ''0123456789''))"
      "WebRtcSessionHandler_GetSession h' \<lparr>gsp_Id = s_Id S\<rparr>
         = Inr (\<lparr>res_Session = Some S, res_Errors = []\<rparr>, None, h')"
    using CreateSession_registers_generated_id
        [OF name, of ?h "''aaaaaaaaaa''" "''2024-05-06T09:30:00 +000000''" "\<lambda>v. None"]
      fresh gen reg
    by blast
  obtain S2 h2 where m:
      "MockSessionHandler_CreateSession mockStore ''5f0c2d1e-3b4a-4f6e-9d8c-7b6a5f4e3d2c''
         ''2024-05-06T09:30:00 +000000'' \<lparr>csp_Name = ''retro''\<rparr>
       = Inr (\<lparr>res_Session = Some S2, res_Errors = []\<rparr>, None, h2)"
      "s_Name S2 = ''retro''" "s_Id S2 = ''5f0c2d1e-3b4a-4f6e-9d8c-7b6a5f4e3d2c''"
      "s_CreationDateTime S2 = ''2024-05-06T09:30:00 +000000''"
      "MockSessionHandler_GetSession acceptCanonicalLength h2 \<lparr>gsp_Id = s_Id S2\<rparr>
         = Inr (\<lparr>res_Session = Some S2, res_Errors = []\<rparr>, None, h2)"
    using CreateSession_registers_generated_id
        [OF name, of mockStore "''5f0c2d1e-3b4a-4f6e-9d8c-7b6a5f4e3d2c''"
           "''2024-05-06T09:30:00 +000000''" acceptCanonicalLength]
      uuid
    by blast
  have S: "S = \<lparr>s_Name = ''retro'', s_Id = ''aaaaaaaaaa'',
                 s_CreationDateTime = ''2024-05-06T09:30:00 +000000''\<rparr>"
    using w(2-4) by (cases S) simp
  have S2: "S2 = \<lparr>s_Name = ''retro'', s_Id = ''5f0c2d1e-3b4a-4f6e-9d8c-7b6a5f4e3d2c'',
                  s_CreationDateTime = ''2024-05-06T09:30:00 +000000''\<rparr>"
    using m(2-4) by (cases S2) simp
  have web: "case WebRtcSessionHandler_CreateSession ?h
              ''aaaaaaaaaa'' ''2024-05-06T09:30:00 +000000'' \<lparr>csp_Name = ''retro''\<rparr> of
         Inl f \<Rightarrow> False
       | Inr (r, e, h') \<Rightarrow>
           res_Session r = Some \<lparr>s_Name = ''retro'', s_Id = ''aaaaaaaaaa'',
                                 s_CreationDateTime = ''2024-05-06T09:30:00 +000000''\<rparr>
         \<and> h' ''0123456789'' = ?h ''0123456789''
         \<and> WebRtcSessionHandler_GetSession h' \<lparr>gsp_Id = ''aaaaaaaaaa''\<rparr>
             = Inr (\<lparr>res_Session = res_Session r, res_Errors = []\<rparr>, None, h')"
    using w(5,6) reg unfolding w(1) w(3) S by simp
  have mock: "case MockSessionHandler_CreateSession mockStore
              ''5f0c2d1e-3b4a-4f6e-9d8c-7b6a5f4e3d2c'' ''2024-05-06T09:30:00 +000000''
              \<lparr>csp_Name = ''retro''\<rparr> of
         Inl f \<Rightarrow> False
       | Inr (r, e, h') \<Rightarrow>
           res_Session r = Some \<lparr>s_Name = ''retro'',
                                 s_Id = ''5f0c2d1e-3b4a-4f6e-9d8c-7b6a5f4e3d2c'',
                                 s_CreationDateTime = ''2024-05-06T09:30:00 +000000''\<rparr>
         \<and> MockSessionHandler_GetSession acceptCanonicalLength h'
               \<lparr>gsp_Id = ''5f0c2d1e-3b4a-4f6e-9d8c-7b6a5f4e3d2c''\<rparr>
             = Inr (\<lparr>res_Session = res_Session r, res_Errors = []\<rparr>, None, h')"
    using m(5) unfolding m(1) m(3) S2 by simp
  show ?thesis by (intro conjI name fresh reach gen freshM uuid web mock)
qed

text \<open>
  Claim C8 as it is stated fails when the generator repeats an id: in the example stores,
  which the handlers can reach, \<open>CreateSession\<close> with the id of the registered session
  \<open>standup\<close> as generated id returns a session with that id, and the store afterwards
  holds the new session in its place.
\<close>

theorem CreateSession_fresh_id_counterexample:
  "WebRtcSessionHandler_reachable webRtcStore
   \<and> generatedId ''0123456789''
   \<and> map_option (s_Id \<circ> rs_Session) (webRtcStore ''0123456789'') = Some ''0123456789''
   \<and> WebRtcSessionHandler_CreateSession webRtcStore
        ''0123456789'' ''2024-05-06T09:30:00 +000000'' \<lparr>csp_Name = ''retro''\<rparr>
      = Inr (\<lparr>res_Session = Some \<lparr>s_Name = ''retro'', s_Id = ''0123456789'',
                                      s_CreationDateTime = ''2024-05-06T09:30:00 +000000''\<rparr>,
              res_Errors = []\<rparr>, None,
             [''0123456789'' \<mapsto>
                \<lparr>rs_Session = \<lparr>s_Name = ''retro'', s_Id = ''0123456789'',
                                 s_CreationDateTime = ''2024-05-06T09:30:00 +000000''\<rparr>,
                 rs_participants = Map.empty\<rparr>])
   \<and> MockSessionHandler_reachable acceptCanonicalLength mockStore
   \<and> acceptCanonicalLength ''123e4567-e89b-42d3-a456-426614174000'' = None
   \<and> map_option (s_Id \<circ> rs_Session) (mockStore ''123e4567-e89b-42d3-a456-426614174000'')
       = Some ''123e4567-e89b-42d3-a456-426614174000''
   \<and> MockSessionHandler_CreateSession mockStore
        ''123e4567-e89b-42d3-a456-426614174000'' ''2024-05-06T09:30:00 +000000''
        \<lparr>csp_Name = ''retro''\<rparr>
      = Inr (\<lparr>res_Session = Some \<lparr>s_Name = ''retro'',
                                      s_Id = ''123e4567-e89b-42d3-a456-426614174000'',
                                      s_CreationDateTime = ''2024-05-06T09:30:00 +000000''\<rparr>,
              res_Errors = []\<rparr>, None,
             [''123e4567-e89b-42d3-a456-426614174000'' \<mapsto>
                \<lparr>rs_Session = \<lparr>s_Name = ''retro'',
                                 s_Id = ''123e4567-e89b-42d3-a456-426614174000'',
                                 s_CreationDateTime = ''2024-05-06T09:30:00 +000000''\<rparr>,
                 rs_participants = Map.empty\<rparr>])"
  using webRtcStore_reachable mockStore_reachable generatedId_examples(1)
  by (simp add: CreateSession_same MockSessionHandler_CreateSession_def checkNotBlank_def
      asciiSpace_def sampleStore_def Let_def acceptCanonicalLength_def)

text \<open>
  Claim C9, amended. The two handlers are not equivalent: each validates a session id
  in the format of its own generator, \<open>MockSessionHandler\<close> with \<open>uuid.Parse\<close> and
  \<open>WebRtcSessionHandler\<close> with \<open>isId\<close>. They agree on \<open>CreateSession\<close>, which takes no
  id: for every store, name, generated id and time stamp both return the same result
  record and leave the same store, and so do the two runs of every sequence of
  \<open>CreateSession\<close> calls. The generated ids are the same for both handlers, as the claim
  assumes, whichever generator they come from. Nothing is said here of the operations
  that take an id.
\<close>

theorem handlers_agree_on_CreateSession:
  "WebRtcSessionHandler_CreateSession h newId now p
     = MockSessionHandler_CreateSession h newId now p
   \<and> WebRtcSessionHandler_run h
       (map (\<lambda>(newId, now, p). (newId, now, CreateSession p)) creates)
     = MockSessionHandler_run parse h
       (map (\<lambda>(newId, now, p). (newId, now, CreateSession p)) creates)"
proof
  show "WebRtcSessionHandler_CreateSession h newId now p
      = MockSessionHandler_CreateSession h newId now p"
    by (rule CreateSession_same)
  show "WebRtcSessionHandler_run h
       (map (\<lambda>(newId, now, p). (newId, now, CreateSession p)) creates)
     = MockSessionHandler_run parse h
       (map (\<lambda>(newId, now, p). (newId, now, CreateSession p)) creates)"
  proof (induction creates arbitrary: h)
    case Nil
    show ?case by simp
  next
    case (Cons c creates)
    obtain newId now p where c: "c = (newId, now, p)"
      by (cases c)
    show ?case
      using Cons.IH
      by (simp add: c CreateSession_same split: sum.splits prod.splits)
  qed
qed

theorem handlers_agree_on_CreateSession_witness:
  "WebRtcSessionHandler_run NewWebRtcSessionHandler
     [(''0123456789'', ''2024-05-06T09:00:00 +000000'', CreateSession \<lparr>csp_Name = ''standup''\<rparr>),
      (''aaaaaaaaaa'', ''2024-05-06T09:30:00 +000000'', CreateSession \<lparr>csp_Name = ''  ''\<rparr>),
      (''5f0c2d1e-3b4a-4f6e-9d8c-7b6a5f4e3d2c'', ''2024-05-06T09:45:00 +000000'', CreateSession \<lparr>csp_Name = ''standup''\<rparr>)]
   = MockSessionHandler_run acceptCanonicalLength Map.empty
     [(''0123456789'', ''2024-05-06T09:00:00 +000000'', CreateSession \<lparr>csp_Name = ''standup''\<rparr>),
      (''aaaaaaaaaa'', ''2024-05-06T09:30:00 +000000'', CreateSession \<lparr>csp_Name = ''  ''\<rparr>),
      (''5f0c2d1e-3b4a-4f6e-9d8c-7b6a5f4e3d2c'', ''2024-05-06T09:45:00 +000000'', CreateSession \<lparr>csp_Name = ''standup''\<rparr>)]
   \<and> MockSessionHandler_run acceptCanonicalLength Map.empty
     [(''0123456789'', ''2024-05-06T09:00:00 +000000'', CreateSession \<lparr>csp_Name = ''standup''\<rparr>),
      (''aaaaaaaaaa'', ''2024-05-06T09:30:00 +000000'', CreateSession \<lparr>csp_Name = ''  ''\<rparr>),
      (''5f0c2d1e-3b4a-4f6e-9d8c-7b6a5f4e3d2c'', ''2024-05-06T09:45:00 +000000'', CreateSession \<lparr>csp_Name = ''standup''\<rparr>)]
   = Inr ([(SessionResponse
              \<lparr>res_Session = Some \<lparr>s_Name = ''standup'', s_Id = ''0123456789'',
                                     s_CreationDateTime = ''2024-05-06T09:00:00 +000000''\<rparr>,
               res_Errors = []\<rparr>, None),
           (SessionResponse \<lparr>res_Session = None, res_Errors = [''name must not be blank'']\<rparr>,
            None),
           (SessionResponse
              \<lparr>res_Session = Some \<lparr>s_Name = ''standup'', s_Id = ''5f0c2d1e-3b4a-4f6e-9d8c-7b6a5f4e3d2c'',
                                     s_CreationDateTime = ''2024-05-06T09:45:00 +000000''\<rparr>,
               res_Errors = []\<rparr>, None)],
          [''0123456789'' \<mapsto>
             \<lparr>rs_Session = \<lparr>s_Name = ''standup'', s_Id = ''0123456789'',
                              s_CreationDateTime = ''2024-05-06T09:00:00 +000000''\<rparr>,
              rs_participants = Map.empty\<rparr>,
           ''5f0c2d1e-3b4a-4f6e-9d8c-7b6a5f4e3d2c'' \<mapsto>
             \<lparr>rs_Session = \<lparr>s_Name = ''standup'', s_Id = ''5f0c2d1e-3b4a-4f6e-9d8c-7b6a5f4e3d2c'',
                              s_CreationDateTime = ''2024-05-06T09:45:00 +000000''\<rparr>,
              rs_participants = Map.empty\<rparr>])"
proof -
  have run: "MockSessionHandler_run acceptCanonicalLength Map.empty
     [(''0123456789'', ''2024-05-06T09:00:00 +000000'', CreateSession \<lparr>csp_Name = ''standup''\<rparr>),
      (''aaaaaaaaaa'', ''2024-05-06T09:30:00 +000000'', CreateSession \<lparr>csp_Name = ''  ''\<rparr>),
      (''5f0c2d1e-3b4a-4f6e-9d8c-7b6a5f4e3d2c'', ''2024-05-06T09:45:00 +000000'', CreateSession \<lparr>csp_Name = ''standup''\<rparr>)]
   = Inr ([(SessionResponse
              \<lparr>res_Session = Some \<lparr>s_Name = ''standup'', s_Id = ''0123456789'',
                                     s_CreationDateTime = ''2024-05-06T09:00:00 +000000''\<rparr>,
               res_Errors = []\<rparr>, None),
           (SessionResponse \<lparr>res_Session = None, res_Errors = [''name must not be blank'']\<rparr>,
            None),
           (SessionResponse
              \<lparr>res_Session = Some \<lparr>s_Name = ''standup'', s_Id = ''5f0c2d1e-3b4a-4f6e-9d8c-7b6a5f4e3d2c'',
                                     s_CreationDateTime = ''2024-05-06T09:45:00 +000000''\<rparr>,
               res_Errors = []\<rparr>, None)],
          [''0123456789'' \<mapsto>
             \<lparr>rs_Session = \<lparr>s_Name = ''standup'', s_Id = ''0123456789'',
                              s_CreationDateTime = ''2024-05-06T09:00:00 +000000''\<rparr>,
              rs_participants = Map.empty\<rparr>,
           ''5f0c2d1e-3b4a-4f6e-9d8c-7b6a5f4e3d2c'' \<mapsto>
             \<lparr>rs_Session = \<lparr>s_Name = ''standup'', s_Id = ''5f0c2d1e-3b4a-4f6e-9d8c-7b6a5f4e3d2c'',
                              s_CreationDateTime = ''2024-05-06T09:45:00 +000000''\<rparr>,
              rs_participants = Map.empty\<rparr>])"
    by (simp add: respond_def MockSessionHandler_CreateSession_def checkNotBlank_def
        asciiSpace_def Let_def)
  have same: "WebRtcSessionHandler_run NewWebRtcSessionHandler
     [(''0123456789'', ''2024-05-06T09:00:00 +000000'', CreateSession \<lparr>csp_Name = ''standup''\<rparr>),
      (''aaaaaaaaaa'', ''2024-05-06T09:30:00 +000000'', CreateSession \<lparr>csp_Name = ''  ''\<rparr>),
      (''5f0c2d1e-3b4a-4f6e-9d8c-7b6a5f4e3d2c'', ''2024-05-06T09:45:00 +000000'', CreateSession \<lparr>csp_Name = ''standup''\<rparr>)]
   = MockSessionHandler_run acceptCanonicalLength Map.empty
     [(''0123456789'', ''2024-05-06T09:00:00 +000000'', CreateSession \<lparr>csp_Name = ''standup''\<rparr>),
      (''aaaaaaaaaa'', ''2024-05-06T09:30:00 +000000'', CreateSession \<lparr>csp_Name = ''  ''\<rparr>),
      (''5f0c2d1e-3b4a-4f6e-9d8c-7b6a5f4e3d2c'', ''2024-05-06T09:45:00 +000000'', CreateSession \<lparr>csp_Name = ''standup''\<rparr>)]"
    using handlers_agree_on_CreateSession
        [where h = Map.empty and parse = acceptCanonicalLength
           and creates = "[(''0123456789'', ''2024-05-06T09:00:00 +000000'', \<lparr>csp_Name = ''standup''\<rparr>),
                           (''aaaaaaaaaa'', ''2024-05-06T09:30:00 +000000'', \<lparr>csp_Name = ''  ''\<rparr>),
                           (''5f0c2d1e-3b4a-4f6e-9d8c-7b6a5f4e3d2c'', ''2024-05-06T09:45:00 +000000'', \<lparr>csp_Name = ''standup''\<rparr>)]",
         THEN conjunct2]
    by (simp only: list.map prod.case NewWebRtcSessionHandler_def)
  show ?thesis by (intro conjI same run)
qed

text \<open>
  Claim C9 as it is stated fails on a session's own id. Both handlers create the session
  \<open>standup\<close> under the same generated id and leave the same store. With a version 4
  UUID as the id, \<open>GetSession\<close> with that id returns the session in \<open>MockSessionHandler\<close>
  and the error of \<open>isId\<close>, for its length, in \<open>WebRtcSessionHandler\<close>; with an id of ten
  hexadecimal digits it returns the session in \<open>WebRtcSessionHandler\<close> and the parser's
  error in \<open>MockSessionHandler\<close>.
\<close>

theorem handlers_differ_on_session_ids_counterexample:
  "WebRtcSessionHandler_CreateSession Map.empty ''123e4567-e89b-42d3-a456-426614174000''
      ''2024-05-06T09:00:00 +000000'' \<lparr>csp_Name = ''standup''\<rparr>
     = Inr (\<lparr>res_Session = Some \<lparr>s_Name = ''standup'',
                                     s_Id = ''123e4567-e89b-42d3-a456-426614174000'',
                                     s_CreationDateTime = ''2024-05-06T09:00:00 +000000''\<rparr>,
             res_Errors = []\<rparr>, None, standupStore ''123e4567-e89b-42d3-a456-426614174000'')
   \<and> MockSessionHandler_CreateSession Map.empty ''123e4567-e89b-42d3-a456-426614174000''
      ''2024-05-06T09:00:00 +000000'' \<lparr>csp_Name = ''standup''\<rparr>
     = Inr (\<lparr>res_Session = Some \<lparr>s_Name = ''standup'',
                                     s_Id = ''123e4567-e89b-42d3-a456-426614174000'',
                                     s_CreationDateTime = ''2024-05-06T09:00:00 +000000''\<rparr>,
             res_Errors = []\<rparr>, None, standupStore ''123e4567-e89b-42d3-a456-426614174000'')
   \<and> MockSessionHandler_GetSession acceptCanonicalLength
        (standupStore ''123e4567-e89b-42d3-a456-426614174000'')
        \<lparr>gsp_Id = ''123e4567-e89b-42d3-a456-426614174000''\<rparr>
     = Inr (\<lparr>res_Session = Some \<lparr>s_Name = ''standup'',
                                     s_Id = ''123e4567-e89b-42d3-a456-426614174000'',
                                     s_CreationDateTime = ''2024-05-06T09:00:00 +000000''\<rparr>,
             res_Errors = []\<rparr>, None, standupStore ''123e4567-e89b-42d3-a456-426614174000'')
   \<and> WebRtcSessionHandler_GetSession (standupStore ''123e4567-e89b-42d3-a456-426614174000'')
        \<lparr>gsp_Id = ''123e4567-e89b-42d3-a456-426614174000''\<rparr>
     = Inr (\<lparr>res_Session = None,
             res_Errors = [''123e4567-e89b-42d3-a456-426614174000 must be a valid id'']\<rparr>,
            None, standupStore ''123e4567-e89b-42d3-a456-426614174000'')
   \<and> WebRtcSessionHandler_GetSession (standupStore ''0123456789'') \<lparr>gsp_Id = ''0123456789''\<rparr>
     = Inr (\<lparr>res_Session = Some \<lparr>s_Name = ''standup'', s_Id = ''0123456789'',
                                     s_CreationDateTime = ''2024-05-06T09:00:00 +000000''\<rparr>,
             res_Errors = []\<rparr>, None, standupStore ''0123456789'')
   \<and> (case MockSessionHandler_GetSession acceptCanonicalLength (standupStore ''0123456789'')
              \<lparr>gsp_Id = ''0123456789''\<rparr> of
         Inl f \<Rightarrow> False
       | Inr (r, e, h') \<Rightarrow> res_Session r = None \<and> length (res_Errors r) = 1)"
  by (simp add: CreateSession_same MockSessionHandler_CreateSession_def checkNotBlank_def
      asciiSpace_def Let_def standupStore_def MockSessionHandler_GetSession_def
      checkSessionId_eq acceptCanonicalLength_def WebRtcSessionHandler_GetSession_def
      GetSessionParams_check_def appendError_def isId_def IdLen_def matchIdPattern_def
      idChar_def doActionOnSession_def)

text \<open>
  Claim C10, amended. No operation reads a name as a key. In every store either handler
  can reach, \<open>CreateSession\<close> with the name of a registered session succeeds and
  registers the new session under the generated id; when that id is not in use, the
  session registered before stays beside it, with the same name and another id.
  \<open>AddParticipant\<close> with the name of a participant of the session succeeds and stores
  the new participant under the generated id; when that id is not in use in the session,
  the participant of that name stays beside it, with another id.
\<close>

theorem names_are_not_keys:
  assumes reach: "MockSessionHandler_reachable parse h \<or> WebRtcSessionHandler_reachable h"
    and reg: "h sid = Some rs"
  shows "MockSessionHandler_CreateSession h newId now \<lparr>csp_Name = s_Name (rs_Session rs)\<rparr>
           = Inr (\<lparr>res_Session =
                     Some \<lparr>s_Name = s_Name (rs_Session rs), s_Id = newId,
                           s_CreationDateTime = now\<rparr>,
                   res_Errors = []\<rparr>, None,
                  h(newId \<mapsto>
                      \<lparr>rs_Session = \<lparr>s_Name = s_Name (rs_Session rs), s_Id = newId,
                                      s_CreationDateTime = now\<rparr>,
                       rs_participants = Map.empty\<rparr>))
       \<and> WebRtcSessionHandler_CreateSession h newId now \<lparr>csp_Name = s_Name (rs_Session rs)\<rparr>
           = MockSessionHandler_CreateSession h newId now \<lparr>csp_Name = s_Name (rs_Session rs)\<rparr>
       \<and> (h newId = None \<longrightarrow>
             newId \<noteq> s_Id (rs_Session rs)
           \<and> (h(newId \<mapsto>
                   \<lparr>rs_Session = \<lparr>s_Name = s_Name (rs_Session rs), s_Id = newId,
                                   s_CreationDateTime = now\<rparr>,
                    rs_participants = Map.empty\<rparr>)) sid = Some rs)
       \<and> (\<forall>pid P. rs_participants rs pid = Some P \<longrightarrow>
             (MockSessionHandler_reachable parse h \<longrightarrow>
                MockSessionHandler_AddParticipant parse h newId now
                  \<lparr>app_SessionId = sid, app_Name = p_Name P\<rparr>
                = Inr (\<lparr>pres_Participant =
                          Some \<lparr>p_Name = p_Name P, p_Id = newId, p_SessionId = sid,
                                p_CreationDateTime = now\<rparr>,
                        pres_Errors = []\<rparr>, None,
                       h(sid \<mapsto> rs\<lparr>rs_participants := (rs_participants rs)
                           (newId \<mapsto> \<lparr>p_Name = p_Name P, p_Id = newId, p_SessionId = sid,
                                       p_CreationDateTime = now\<rparr>)\<rparr>)))
           \<and> (WebRtcSessionHandler_reachable h \<longrightarrow>
                WebRtcSessionHandler_AddParticipant h newId now
                  \<lparr>app_SessionId = sid, app_Name = p_Name P\<rparr>
                = Inr (\<lparr>pres_Participant =
                          Some \<lparr>p_Name = p_Name P, p_Id = newId, p_SessionId = sid,
                                p_CreationDateTime = now\<rparr>,
                        pres_Errors = []\<rparr>, None,
                       h(sid \<mapsto> rs\<lparr>rs_participants := (rs_participants rs)
                           (newId \<mapsto> \<lparr>p_Name = p_Name P, p_Id = newId, p_SessionId = sid,
                                       p_CreationDateTime = now\<rparr>)\<rparr>)))
           \<and> (rs_participants rs newId = None \<longrightarrow>
                newId \<noteq> p_Id P
              \<and> ((rs_participants rs)
                    (newId \<mapsto> \<lparr>p_Name = p_Name P, p_Id = newId, p_SessionId = sid,
                                p_CreationDateTime = now\<rparr>)) pid = Some P))"
proof -
  from reach obtain okId where wf: "wellFormed okId h"
    using MockSessionHandler_reachable_wellFormed WebRtcSessionHandler_reachable_wellFormed
    by blast
  have sess: "s_Id (rs_Session rs) = sid" "\<not> allSpace (s_Name (rs_Session rs))"
    using wellFormed_session [OF wf reg] by simp_all
  have create: "MockSessionHandler_CreateSession h newId now
        \<lparr>csp_Name = s_Name (rs_Session rs)\<rparr>
      = Inr (\<lparr>res_Session =
                Some \<lparr>s_Name = s_Name (rs_Session rs), s_Id = newId,
                      s_CreationDateTime = now\<rparr>,
              res_Errors = []\<rparr>, None,
             h(newId \<mapsto>
                 \<lparr>rs_Session = \<lparr>s_Name = s_Name (rs_Session rs), s_Id = newId,
                                 s_CreationDateTime = now\<rparr>,
                  rs_participants = Map.empty\<rparr>))"
    using sess(2) by (simp add: MockSessionHandler_CreateSession_def checkNotBlank_def Let_def)
  have second: "newId \<noteq> s_Id (rs_Session rs)
      \<and> (h(newId \<mapsto>
              \<lparr>rs_Session = \<lparr>s_Name = s_Name (rs_Session rs), s_Id = newId,
                              s_CreationDateTime = now\<rparr>,
               rs_participants = Map.empty\<rparr>)) sid = Some rs"
    if "h newId = None"
    using that reg sess(1) by auto
  have parts: "(MockSessionHandler_reachable parse h \<longrightarrow>
          MockSessionHandler_AddParticipant parse h newId now
            \<lparr>app_SessionId = sid, app_Name = p_Name P\<rparr>
          = Inr (\<lparr>pres_Participant =
                    Some \<lparr>p_Name = p_Name P, p_Id = newId, p_SessionId = sid,
                          p_CreationDateTime = now\<rparr>,
                  pres_Errors = []\<rparr>, None,
                 h(sid \<mapsto> rs\<lparr>rs_participants := (rs_participants rs)
                     (newId \<mapsto> \<lparr>p_Name = p_Name P, p_Id = newId, p_SessionId = sid,
                                 p_CreationDateTime = now\<rparr>)\<rparr>)))
      \<and> (WebRtcSessionHandler_reachable h \<longrightarrow>
          WebRtcSessionHandler_AddParticipant h newId now
            \<lparr>app_SessionId = sid, app_Name = p_Name P\<rparr>
          = Inr (\<lparr>pres_Participant =
                    Some \<lparr>p_Name = p_Name P, p_Id = newId, p_SessionId = sid,
                          p_CreationDateTime = now\<rparr>,
                  pres_Errors = []\<rparr>, None,
                 h(sid \<mapsto> rs\<lparr>rs_participants := (rs_participants rs)
                     (newId \<mapsto> \<lparr>p_Name = p_Name P, p_Id = newId, p_SessionId = sid,
                                 p_CreationDateTime = now\<rparr>)\<rparr>)))
      \<and> (rs_participants rs newId = None \<longrightarrow>
          newId \<noteq> p_Id P
        \<and> ((rs_participants rs)
              (newId \<mapsto> \<lparr>p_Name = p_Name P, p_Id = newId, p_SessionId = sid,
                          p_CreationDateTime = now\<rparr>)) pid = Some P)"
    if part: "rs_participants rs pid = Some P" for pid P
  proof -
    have P: "p_Id P = pid" "\<not> allSpace (p_Name P)"
      using wellFormed_participant [OF wf reg part] by simp_all
    have mock: "MockSessionHandler_AddParticipant parse h newId now
          \<lparr>app_SessionId = sid, app_Name = p_Name P\<rparr>
        = Inr (\<lparr>pres_Participant =
                  Some \<lparr>p_Name = p_Name P, p_Id = newId, p_SessionId = sid,
                        p_CreationDateTime = now\<rparr>,
                pres_Errors = []\<rparr>, None,
               h(sid \<mapsto> rs\<lparr>rs_participants := (rs_participants rs)
                   (newId \<mapsto> \<lparr>p_Name = p_Name P, p_Id = newId, p_SessionId = sid,
                               p_CreationDateTime = now\<rparr>)\<rparr>))"
      if "MockSessionHandler_reachable parse h"
    proof -
      have "parse sid = None"
        using wellFormed_session [OF MockSessionHandler_reachable_wellFormed [OF that] reg]
        by simp
      then show ?thesis
        using reg sess(1) P(2)
        by (simp add: MockSessionHandler_AddParticipant_def checkSessionId_eq checkNotBlank_def
            Let_def)
    qed
    have web: "WebRtcSessionHandler_AddParticipant h newId now
          \<lparr>app_SessionId = sid, app_Name = p_Name P\<rparr>
        = Inr (\<lparr>pres_Participant =
                  Some \<lparr>p_Name = p_Name P, p_Id = newId, p_SessionId = sid,
                        p_CreationDateTime = now\<rparr>,
                pres_Errors = []\<rparr>, None,
               h(sid \<mapsto> rs\<lparr>rs_participants := (rs_participants rs)
                   (newId \<mapsto> \<lparr>p_Name = p_Name P, p_Id = newId, p_SessionId = sid,
                               p_CreationDateTime = now\<rparr>)\<rparr>))"
      if "WebRtcSessionHandler_reachable h"
    proof -
      have "generatedId sid"
        using wellFormed_session [OF WebRtcSessionHandler_reachable_wellFormed [OF that] reg]
        by simp
      then have "isId ''sessionId'' sid = None"
        by (rule generatedId_isId)
      then show ?thesis
        using reg P(2)
        by (simp add: WebRtcSessionHandler_AddParticipant_def AddParticipantParams_check_def
            appendError_def isNotBlank_def newParticipant_def doActionOnSession_def Let_def)
    qed
    have beside: "newId \<noteq> p_Id P
        \<and> ((rs_participants rs)
              (newId \<mapsto> \<lparr>p_Name = p_Name P, p_Id = newId, p_SessionId = sid,
                          p_CreationDateTime = now\<rparr>)) pid = Some P"
      if "rs_participants rs newId = None"
      using that part P(1) by auto
    show ?thesis using mock web beside by blast
  qed
  show ?thesis
    using create second parts by (simp add: CreateSession_same)
qed

theorem names_are_not_keys_witness:
  "WebRtcSessionHandler_reachable (standupStore ''0123456789'')
   \<and> standupStore ''0123456789'' ''aaaaaaaaaa'' = None
   \<and> WebRtcSessionHandler_CreateSession (standupStore ''0123456789'') ''aaaaaaaaaa''
        ''2024-05-06T09:30:00 +000000'' \<lparr>csp_Name = ''standup''\<rparr>
      = Inr (\<lparr>res_Session = Some \<lparr>s_Name = ''standup'', s_Id = ''aaaaaaaaaa'',
                                      s_CreationDateTime = ''2024-05-06T09:30:00 +000000''\<rparr>,
              res_Errors = []\<rparr>, None,
             [''0123456789'' \<mapsto>
                \<lparr>rs_Session = \<lparr>s_Name = ''standup'', s_Id = ''0123456789'',
                                 s_CreationDateTime = ''2024-05-06T09:00:00 +000000''\<rparr>,
                 rs_participants = Map.empty\<rparr>,
              ''aaaaaaaaaa'' \<mapsto>
                \<lparr>rs_Session = \<lparr>s_Name = ''standup'', s_Id = ''aaaaaaaaaa'',
                                 s_CreationDateTime = ''2024-05-06T09:30:00 +000000''\<rparr>,
                 rs_participants = Map.empty\<rparr>])
   \<and> WebRtcSessionHandler_reachable webRtcStore
   \<and> WebRtcSessionHandler_AddParticipant webRtcStore ''aaaaaaaaaa''
        ''2024-05-06T09:30:00 +000000'' \<lparr>app_SessionId = ''0123456789'', app_Name = ''alice''\<rparr>
      = Inr (\<lparr>pres_Participant =
                Some \<lparr>p_Name = ''alice'', p_Id = ''aaaaaaaaaa'', p_SessionId = ''0123456789'',
                      p_CreationDateTime = ''2024-05-06T09:30:00 +000000''\<rparr>,
              pres_Errors = []\<rparr>, None,
             [''0123456789'' \<mapsto>
                \<lparr>rs_Session = \<lparr>s_Name = ''standup'', s_Id = ''0123456789'',
                                 s_CreationDateTime = ''2024-05-06T09:00:00 +000000''\<rparr>,
                 rs_participants =
                   [''89abcdef01'' \<mapsto>
                      \<lparr>p_Name = ''alice'', p_Id = ''89abcdef01'', p_SessionId = ''0123456789'',
                       p_CreationDateTime = ''2024-05-06T09:00:05 +000000''\<rparr>,
                    ''aaaaaaaaaa'' \<mapsto>
                      \<lparr>p_Name = ''alice'', p_Id = ''aaaaaaaaaa'', p_SessionId = ''0123456789'',
                       p_CreationDateTime = ''2024-05-06T09:30:00 +000000''\<rparr>]\<rparr>])
   \<and> MockSessionHandler_reachable acceptCanonicalLength mockStore
   \<and> MockSessionHandler_CreateSession mockStore ''5f0c2d1e-3b4a-4f6e-9d8c-7b6a5f4e3d2c''
        ''2024-05-06T09:30:00 +000000'' \<lparr>csp_Name = ''standup''\<rparr>
      = Inr (\<lparr>res_Session =
                Some \<lparr>s_Name = ''standup'', s_Id = ''5f0c2d1e-3b4a-4f6e-9d8c-7b6a5f4e3d2c'',
                      s_CreationDateTime = ''2024-05-06T09:30:00 +000000''\<rparr>,
              res_Errors = []\<rparr>, None,
             mockStore(''5f0c2d1e-3b4a-4f6e-9d8c-7b6a5f4e3d2c'' \<mapsto>
                \<lparr>rs_Session = \<lparr>s_Name = ''standup'',
                                 s_Id = ''5f0c2d1e-3b4a-4f6e-9d8c-7b6a5f4e3d2c'',
                                 s_CreationDateTime = ''2024-05-06T09:30:00 +000000''\<rparr>,
                 rs_participants = Map.empty\<rparr>))
   \<and> MockSessionHandler_AddParticipant acceptCanonicalLength mockStore
        ''5f0c2d1e-3b4a-4f6e-9d8c-7b6a5f4e3d2c'' ''2024-05-06T09:30:00 +000000''
        \<lparr>app_SessionId = ''123e4567-e89b-42d3-a456-426614174000'', app_Name = ''alice''\<rparr>
      = Inr (\<lparr>pres_Participant =
                Some \<lparr>p_Name = ''alice'', p_Id = ''5f0c2d1e-3b4a-4f6e-9d8c-7b6a5f4e3d2c'',
                      p_SessionId = ''123e4567-e89b-42d3-a456-426614174000'',
                      p_CreationDateTime = ''2024-05-06T09:30:00 +000000''\<rparr>,
              pres_Errors = []\<rparr>, None,
             [''123e4567-e89b-42d3-a456-426614174000'' \<mapsto>
                \<lparr>rs_Session = \<lparr>s_Name = ''standup'',
                                 s_Id = ''123e4567-e89b-42d3-a456-426614174000'',
                                 s_CreationDateTime = ''2024-05-06T09:00:00 +000000''\<rparr>,
                 rs_participants =
                   [''9b2e1f6c-7a4d-4c3b-8f10-5d6e7f8a9b0c'' \<mapsto>
                      \<lparr>p_Name = ''alice'', p_Id = ''9b2e1f6c-7a4d-4c3b-8f10-5d6e7f8a9b0c'',
                       p_SessionId = ''123e4567-e89b-42d3-a456-426614174000'',
                       p_CreationDateTime = ''2024-05-06T09:00:05 +000000''\<rparr>,
                    ''5f0c2d1e-3b4a-4f6e-9d8c-7b6a5f4e3d2c'' \<mapsto>
                      \<lparr>p_Name = ''alice'', p_Id = ''5f0c2d1e-3b4a-4f6e-9d8c-7b6a5f4e3d2c'',
                       p_SessionId = ''123e4567-e89b-42d3-a456-426614174000'',
                       p_CreationDateTime = ''2024-05-06T09:30:00 +000000''\<rparr>]\<rparr>])"
proof -
  let ?now = "''2024-05-06T09:30:00 +000000''"
  have reachS: "WebRtcSessionHandler_reachable (standupStore ''0123456789'')"
    by (rule standupStore_WebRtc_reachable) (rule generatedId_examples)
  have regS: "standupStore ''0123456789'' ''0123456789''
      = Some (the (standupStore ''0123456789'' ''0123456789''))"
    by (simp add: standupStore_def)
  have regW: "webRtcStore ''0123456789'' = Some (the (webRtcStore ''0123456789''))"
    by (simp add: sampleStore_def)
  have regM: "mockStore ''123e4567-e89b-42d3-a456-426614174000''
      = Some (the (mockStore ''123e4567-e89b-42d3-a456-426614174000''))"
    by (simp add: sampleStore_def)
  note s = names_are_not_keys
      [where h = "standupStore ''0123456789''" and sid = "''0123456789''"
         and newId = "''aaaaaaaaaa''" and now = ?now and parse = acceptCanonicalLength,
       OF disjI2 [OF reachS] regS]
  note w = names_are_not_keys
      [where h = webRtcStore and sid = "''0123456789''"
         and newId = "''aaaaaaaaaa''" and now = ?now and parse = acceptCanonicalLength,
       OF disjI2 [OF webRtcStore_reachable] regW]
  note m = names_are_not_keys
      [where h = mockStore and sid = "''123e4567-e89b-42d3-a456-426614174000''"
         and newId = "''5f0c2d1e-3b4a-4f6e-9d8c-7b6a5f4e3d2c''" and now = ?now
         and parse = acceptCanonicalLength,
       OF disjI1 [OF mockStore_reachable] regM]
  have partW: "rs_participants (the (webRtcStore ''0123456789'')) ''89abcdef01''
      = Some (the (rs_participants (the (webRtcStore ''0123456789'')) ''89abcdef01''))"
    by (simp add: sampleStore_def)
  have partM: "rs_participants (the (mockStore ''123e4567-e89b-42d3-a456-426614174000''))
        ''9b2e1f6c-7a4d-4c3b-8f10-5d6e7f8a9b0c''
      = Some (the (rs_participants (the (mockStore ''123e4567-e89b-42d3-a456-426614174000''))
          ''9b2e1f6c-7a4d-4c3b-8f10-5d6e7f8a9b0c''))"
    by (simp add: sampleStore_def)
  note wp = w [THEN conjunct2, THEN conjunct2, THEN conjunct2,
      THEN spec [where x = "''89abcdef01''"],
      THEN spec [where x = "the (rs_participants (the (webRtcStore ''0123456789''))
                              ''89abcdef01'')"],
      THEN mp, OF partW]
  note mp = m [THEN conjunct2, THEN conjunct2, THEN conjunct2,
      THEN spec [where x = "''9b2e1f6c-7a4d-4c3b-8f10-5d6e7f8a9b0c''"],
      THEN spec [where x = "the (rs_participants
                              (the (mockStore ''123e4567-e89b-42d3-a456-426614174000''))
                              ''9b2e1f6c-7a4d-4c3b-8f10-5d6e7f8a9b0c'')"],
      THEN mp, OF partM]
  have c1: "standupStore ''0123456789'' ''aaaaaaaaaa'' = None"
    by (simp add: standupStore_def)
  have c2: "WebRtcSessionHandler_CreateSession (standupStore ''0123456789'') ''aaaaaaaaaa''
        ?now \<lparr>csp_Name = ''standup''\<rparr>
      = Inr (\<lparr>res_Session = Some \<lparr>s_Name = ''standup'', s_Id = ''aaaaaaaaaa'',
                                      s_CreationDateTime = ?now\<rparr>,
              res_Errors = []\<rparr>, None,
             [''0123456789'' \<mapsto>
                \<lparr>rs_Session = \<lparr>s_Name = ''standup'', s_Id = ''0123456789'',
                                 s_CreationDateTime = ''2024-05-06T09:00:00 +000000''\<rparr>,
                 rs_participants = Map.empty\<rparr>,
              ''aaaaaaaaaa'' \<mapsto>
                \<lparr>rs_Session = \<lparr>s_Name = ''standup'', s_Id = ''aaaaaaaaaa'',
                                 s_CreationDateTime = ?now\<rparr>,
                 rs_participants = Map.empty\<rparr>])"
    using s [THEN conjunct1] s [THEN conjunct2, THEN conjunct1]
    by (simp add: standupStore_def)
  have c3: "WebRtcSessionHandler_AddParticipant webRtcStore ''aaaaaaaaaa''
        ?now \<lparr>app_SessionId = ''0123456789'', app_Name = ''alice''\<rparr>
      = Inr (\<lparr>pres_Participant =
                Some \<lparr>p_Name = ''alice'', p_Id = ''aaaaaaaaaa'', p_SessionId = ''0123456789'',
                      p_CreationDateTime = ?now\<rparr>,
              pres_Errors = []\<rparr>, None,
             [''0123456789'' \<mapsto>
                \<lparr>rs_Session = \<lparr>s_Name = ''standup'', s_Id = ''0123456789'',
                                 s_CreationDateTime = ''2024-05-06T09:00:00 +000000''\<rparr>,
                 rs_participants =
                   [''89abcdef01'' \<mapsto>
                      \<lparr>p_Name = ''alice'', p_Id = ''89abcdef01'', p_SessionId = ''0123456789'',
                       p_CreationDateTime = ''2024-05-06T09:00:05 +000000''\<rparr>,
                    ''aaaaaaaaaa'' \<mapsto>
                      \<lparr>p_Name = ''alice'', p_Id = ''aaaaaaaaaa'', p_SessionId = ''0123456789'',
                       p_CreationDateTime = ?now\<rparr>]\<rparr>])"
    using wp webRtcStore_reachable by (simp add: sampleStore_def)
  have c4: "MockSessionHandler_CreateSession mockStore ''5f0c2d1e-3b4a-4f6e-9d8c-7b6a5f4e3d2c''
        ?now \<lparr>csp_Name = ''standup''\<rparr>
      = Inr (\<lparr>res_Session =
                Some \<lparr>s_Name = ''standup'', s_Id = ''5f0c2d1e-3b4a-4f6e-9d8c-7b6a5f4e3d2c'',
                      s_CreationDateTime = ?now\<rparr>,
              res_Errors = []\<rparr>, None,
             mockStore(''5f0c2d1e-3b4a-4f6e-9d8c-7b6a5f4e3d2c'' \<mapsto>
                \<lparr>rs_Session = \<lparr>s_Name = ''standup'',
                                 s_Id = ''5f0c2d1e-3b4a-4f6e-9d8c-7b6a5f4e3d2c'',
                                 s_CreationDateTime = ?now\<rparr>,
                 rs_participants = Map.empty\<rparr>))"
    using m [THEN conjunct1] by (simp add: sampleStore_def)
  have c5: "MockSessionHandler_AddParticipant acceptCanonicalLength mockStore
        ''5f0c2d1e-3b4a-4f6e-9d8c-7b6a5f4e3d2c'' ?now
        \<lparr>app_SessionId = ''123e4567-e89b-42d3-a456-426614174000'', app_Name = ''alice''\<rparr>
      = Inr (\<lparr>pres_Participant =
                Some \<lparr>p_Name = ''alice'', p_Id = ''5f0c2d1e-3b4a-4f6e-9d8c-7b6a5f4e3d2c'',
                      p_SessionId = ''123e4567-e89b-42d3-a456-426614174000'',
                      p_CreationDateTime = ?now\<rparr>,
              pres_Errors = []\<rparr>, None,
             [''123e4567-e89b-42d3-a456-426614174000'' \<mapsto>
                \<lparr>rs_Session = \<lparr>s_Name = ''standup'',
                                 s_Id = ''123e4567-e89b-42d3-a456-426614174000'',
                                 s_CreationDateTime = ''2024-05-06T09:00:00 +000000''\<rparr>,
                 rs_participants =
                   [''9b2e1f6c-7a4d-4c3b-8f10-5d6e7f8a9b0c'' \<mapsto>
                      \<lparr>p_Name = ''alice'', p_Id = ''9b2e1f6c-7a4d-4c3b-8f10-5d6e7f8a9b0c'',
                       p_SessionId = ''123e4567-e89b-42d3-a456-426614174000'',
                       p_CreationDateTime = ''2024-05-06T09:00:05 +000000''\<rparr>,
                    ''5f0c2d1e-3b4a-4f6e-9d8c-7b6a5f4e3d2c'' \<mapsto>
                      \<lparr>p_Name = ''alice'', p_Id = ''5f0c2d1e-3b4a-4f6e-9d8c-7b6a5f4e3d2c'',
                       p_SessionId = ''123e4567-e89b-42d3-a456-426614174000'',
                       p_CreationDateTime = ?now\<rparr>]\<rparr>])"
    using mp mockStore_reachable by (simp add: sampleStore_def)
  show ?thesis
    by (intro conjI reachS c1 c2 webRtcStore_reachable c3 mockStore_reachable c4 c5)
qed

text \<open>
  Claim C10 as it is stated fails when the generator repeats an id, as claim C8 does: in
  the example store \<open>CreateSession\<close> with the name \<open>standup\<close> and the id of the session
  of that name leaves one session, and \<open>AddParticipant\<close> with the name \<open>alice\<close> and the
  id of the participant of that name leaves one participant.
\<close>

theorem names_are_not_keys_counterexample:
  "WebRtcSessionHandler_reachable webRtcStore
   \<and> generatedId ''0123456789'' \<and> generatedId ''89abcdef01''
   \<and> map_option (s_Name \<circ> rs_Session) (webRtcStore ''0123456789'') = Some ''standup''
   \<and> WebRtcSessionHandler_CreateSession webRtcStore ''0123456789''
        ''2024-05-06T09:30:00 +000000'' \<lparr>csp_Name = ''standup''\<rparr>
      = Inr (\<lparr>res_Session = Some \<lparr>s_Name = ''standup'', s_Id = ''0123456789'',
                                      s_CreationDateTime = ''2024-05-06T09:30:00 +000000''\<rparr>,
              res_Errors = []\<rparr>, None,
             [''0123456789'' \<mapsto>
                \<lparr>rs_Session = \<lparr>s_Name = ''standup'', s_Id = ''0123456789'',
                                 s_CreationDateTime = ''2024-05-06T09:30:00 +000000''\<rparr>,
                 rs_participants = Map.empty\<rparr>])
   \<and> WebRtcSessionHandler_AddParticipant webRtcStore ''89abcdef01''
        ''2024-05-06T09:30:00 +000000'' \<lparr>app_SessionId = ''0123456789'', app_Name = ''alice''\<rparr>
      = Inr (\<lparr>pres_Participant =
                Some \<lparr>p_Name = ''alice'', p_Id = ''89abcdef01'', p_SessionId = ''0123456789'',
                      p_CreationDateTime = ''2024-05-06T09:30:00 +000000''\<rparr>,
              pres_Errors = []\<rparr>, None,
             [''0123456789'' \<mapsto>
                \<lparr>rs_Session = \<lparr>s_Name = ''standup'', s_Id = ''0123456789'',
                                 s_CreationDateTime = ''2024-05-06T09:00:00 +000000''\<rparr>,
                 rs_participants =
                   [''89abcdef01'' \<mapsto>
                      \<lparr>p_Name = ''alice'', p_Id = ''89abcdef01'', p_SessionId = ''0123456789'',
                       p_CreationDateTime = ''2024-05-06T09:30:00 +000000''\<rparr>]\<rparr>])"
  using webRtcStore_reachable generatedId_examples(1,2)
  by (simp add: CreateSession_same MockSessionHandler_CreateSession_def checkNotBlank_def
      asciiSpace_def sampleStore_def Let_def WebRtcSessionHandler_AddParticipant_def
      AddParticipantParams_check_def appendError_def isNotBlank_def isId_def IdLen_def
      matchIdPattern_def idChar_def newParticipant_def doActionOnSession_def)

end
